theory Spec2Isabelle
  imports Main "HOL-Library.Word"
begin

unbundle bit_operations_syntax

section \<open>orphan-finder: data model\<close>

text \<open>
  A shallow embedding of \<^verbatim>\<open>cmd/orphan-finder/main.go\<close>. Go strings are byte
  sequences, modelled as \<open>string\<close>; a byte slice is a list of 8-bit words.
\<close>

type_synonym byte = "8 word"

subsection \<open>orphanType\<close>

datatype orphanType = unknownOrphan | certOrphan | precertOrphan

fun String :: "orphanType \<Rightarrow> string" where
  "String certOrphan = ''certificate''"
| "String precertOrphan = ''precertificate''"
| "String unknownOrphan = ''unknown''"

subsection \<open>Errors\<close>

text \<open>
  Modelled from the spec: the package \<^verbatim>\<open>errors\<close> of the repository (imported as
  \<^verbatim>\<open>berrors\<close>) is not among the sources. An error of that package carries a type;
  the spec names the not-found answer of a lookup and the uniqueness-constraint
  violation of an insert, every other type is \<open>InternalServer\<close> here.
\<close>

datatype ErrorType = InternalServer | NotFound | Duplicate

text \<open>
  The error values the program handles. \<open>fmt_arg\<close> is an argument of a format call
  (\<^verbatim>\<open>fmt.Errorf\<close>, the logger's \<^verbatim>\<open>Infof\<close>, \<^verbatim>\<open>Errf\<close>, \<^verbatim>\<open>AuditErrf\<close>), kept
  beside its format string as the call passes it. \<open>errAlreadyExists\<close> is the
  package-level sentinel the source compares with \<^verbatim>\<open>==\<close>; an error made by
  \<^verbatim>\<open>fmt.Errorf\<close> is a different value whatever its text.
\<close>

datatype error =
    ErrLength
  | InvalidByteError char
  | ErrSyntax string
  | ErrRange string
  | X509Error string
  | BoulderError ErrorType string
  | RemoteError string
  | ErrorsNew string
  | errAlreadyExists
  | Errorf string "fmt_arg list"
and fmt_arg =
    ArgStr string
  | ArgErr error
  | ArgTyp orphanType
  | ArgInt int

text \<open>
  Modelled from the spec: \<^verbatim>\<open>berrors.Is\<close> is not among the sources; it holds of an
  error of the package whose type is the one asked for.
\<close>

fun berrors_Is :: "error \<Rightarrow> ErrorType \<Rightarrow> bool" where
  "berrors_Is (BoulderError t _) t' = (t = t')"
| "berrors_Is _ _ = False"

subsection \<open>Time\<close>

text \<open>
  \<^verbatim>\<open>time.Time\<close> as seconds since the Unix epoch and nanoseconds within the second
  (\<open>0 \<le> nsec < 10^9\<close>); \<^verbatim>\<open>time.Duration\<close> is a count of nanoseconds. Go keeps the
  seconds in an int64 counted from year 1, which holds every validity date a certificate
  can encode (years 0 to 9999) moved by any Duration, so the seconds are an \<open>int\<close> here.
  \<^verbatim>\<open>UnixNano\<close> computes in int64 and wraps.
\<close>

record Time =
  sec :: int
  nsec :: int

type_synonym Duration = int

definition trunc_div :: "int \<Rightarrow> int \<Rightarrow> int" where
  "trunc_div a b = sgn a * sgn b * (\<bar>a\<bar> div \<bar>b\<bar>)"

definition trunc_rem :: "int \<Rightarrow> int \<Rightarrow> int" where
  "trunc_rem a b = a - b * trunc_div a b"

definition Add :: "Time \<Rightarrow> Duration \<Rightarrow> Time" where
  "Add t d =
     (let dsec = trunc_div d 1000000000;
          ns = nsec t + trunc_rem d 1000000000
      in if ns \<ge> 1000000000 then \<lparr>sec = sec t + (dsec + 1), nsec = ns - 1000000000\<rparr>
         else if ns < 0 then \<lparr>sec = sec t + (dsec - 1), nsec = ns + 1000000000\<rparr>
         else \<lparr>sec = sec t + dsec, nsec = ns\<rparr>)"

definition wrap_int64 :: "int \<Rightarrow> int" where
  "wrap_int64 n = (n + 2 ^ 63) mod 2 ^ 64 - 2 ^ 63"

definition UnixNano :: "Time \<Rightarrow> int" where
  "UnixNano t = wrap_int64 (sec t * 1000000000 + nsec t)"

text \<open>
  The instant of a calendar date and time of day in UTC (proleptic Gregorian calendar),
  to write the timestamps of the specification: the days from 1970-01-01 to the date,
  then the seconds.
\<close>

definition days_from_civil :: "int \<Rightarrow> int \<Rightarrow> int \<Rightarrow> int" where
  "days_from_civil y m d =
     (let y' = (if m \<le> 2 then y - 1 else y);
          era = y' div 400;
          yoe = y' - era * 400;
          doy = (153 * (if m > 2 then m - 3 else m + 9) + 2) div 5 + d - 1;
          doe = yoe * 365 + yoe div 4 - yoe div 100 + doy
      in era * 146097 + doe - 719468)"

definition Date :: "int \<Rightarrow> int \<Rightarrow> int \<Rightarrow> int \<Rightarrow> int \<Rightarrow> int \<Rightarrow> Time" where
  "Date y m d hh mm ss =
     \<lparr>sec = days_from_civil y m d * 86400 + hh * 3600 + mm * 60 + ss, nsec = 0\<rparr>"

subsection \<open>Certificates\<close>

text \<open>
  What the program reads of an \<^verbatim>\<open>x509.Certificate\<close>: the serial number, the start
  of validity and the extensions, each with its object identifier.
\<close>

type_synonym ObjectIdentifier = "int list"

record Extension =
  Id :: ObjectIdentifier

record Certificate =
  SerialNumber :: int
  NotBefore :: Time
  Extensions :: "Extension list"

definition poisonExt :: ObjectIdentifier where
  "poisonExt = [1, 3, 6, 1, 4, 1, 11129, 2, 4, 3]"

text \<open>
  \<^verbatim>\<open>orphanTypeForCert\<close>: the pointer argument is an option, \<open>None\<close> for nil. The
  loop over the extensions returns at the first one whose identifier equals the poison
  extension's (\<^verbatim>\<open>ObjectIdentifier.Equal\<close> compares lengths and elements).
\<close>

fun has_poison :: "Extension list \<Rightarrow> bool" where
  "has_poison [] = False"
| "has_poison (ext # exts) = (if Id ext = poisonExt then True else has_poison exts)"

fun orphanTypeForCert :: "Certificate option \<Rightarrow> orphanType" where
  "orphanTypeForCert None = unknownOrphan"
| "orphanTypeForCert (Some cert) =
     (if has_poison (Extensions cert) then precertOrphan else certOrphan)"

section \<open>Text: substrings, the two patterns, hex, integers\<close>

text \<open>\<^verbatim>\<open>strings.Contains\<close>: the substring starts at some position of the string.\<close>

fun Contains :: "string \<Rightarrow> string \<Rightarrow> bool" where
  "Contains [] substr = (substr = [])"
| "Contains (c # s) substr = (take (length substr) (c # s) = substr \<or> Contains s substr)"

text \<open>
  The two regular expressions, \<^verbatim>\<open>cert=\[([0-9a-f]+)\]\<close> and \<^verbatim>\<open>regID=\[(\d+)\]\<close>,
  have one shape: a literal ending in the opening bracket, one group of one or more
  characters of a class, the closing bracket. The closing bracket is in neither class, so
  at a given start the only possible match takes the longest run of the class and needs
  the bracket right after it. \<^verbatim>\<open>FindStringSubmatch\<close> returns the leftmost match as the
  slice (whole match, group), and nil (the empty list) when there is none.
\<close>

definition is_lower_hex :: "char \<Rightarrow> bool" where
  "is_lower_hex c = (c \<in> set ''0123456789abcdef'')"

definition is_digit :: "char \<Rightarrow> bool" where
  "is_digit c = (c \<in> set ''0123456789'')"

definition match_here :: "string \<Rightarrow> (char \<Rightarrow> bool) \<Rightarrow> string \<Rightarrow> string list" where
  "match_here lit cls s =
     (let g = takeWhile cls (drop (length lit) s);
          r = dropWhile cls (drop (length lit) s)
      in if take (length lit) s = lit \<and> g \<noteq> [] \<and> take 1 r = '']''
         then [lit @ g @ '']'', g] else [])"

fun find_leftmost :: "string \<Rightarrow> (char \<Rightarrow> bool) \<Rightarrow> string \<Rightarrow> string list" where
  "find_leftmost lit cls [] = []"
| "find_leftmost lit cls (c # s) =
     (if match_here lit cls (c # s) = [] then find_leftmost lit cls s
      else match_here lit cls (c # s))"

definition derOrphan_FindStringSubmatch :: "string \<Rightarrow> string list" where
  "derOrphan_FindStringSubmatch line = find_leftmost ''cert=['' is_lower_hex line"

definition regOrphan_FindStringSubmatch :: "string \<Rightarrow> string list" where
  "regOrphan_FindStringSubmatch line = find_leftmost ''regID=['' is_digit line"

text \<open>
  \<^verbatim>\<open>hex.DecodeString\<close>: two characters a byte; the first character that is no
  hexadecimal digit is an \<^verbatim>\<open>InvalidByteError\<close>, an odd length with valid digits is
  \<^verbatim>\<open>ErrLength\<close>. Both cases of the letters are digits.
\<close>

definition fromHexChar :: "char \<Rightarrow> byte option" where
  "fromHexChar c =
     (let n = (of_char c :: nat)
      in if 48 \<le> n \<and> n \<le> 57 then Some (of_nat (n - 48))
         else if 97 \<le> n \<and> n \<le> 102 then Some (of_nat (n - 97 + 10))
         else if 65 \<le> n \<and> n \<le> 70 then Some (of_nat (n - 65 + 10))
         else None)"

fun DecodeString :: "string \<Rightarrow> error + byte list" where
  "DecodeString [] = Inr []"
| "DecodeString [p] =
     (case fromHexChar p of None \<Rightarrow> Inl (InvalidByteError p) | Some a \<Rightarrow> Inl ErrLength)"
| "DecodeString (p # q # s) =
     (case fromHexChar p of
        None \<Rightarrow> Inl (InvalidByteError p)
      | Some a \<Rightarrow>
         (case fromHexChar q of
            None \<Rightarrow> Inl (InvalidByteError q)
          | Some b \<Rightarrow>
             (case DecodeString s of
                Inl e \<Rightarrow> Inl e
              | Inr bs \<Rightarrow> Inr ((push_bit 4 a OR b) # bs))))"

text \<open>
  \<^verbatim>\<open>strconv.ParseInt(s, 10, 64)\<close>. \<^verbatim>\<open>ParseUint\<close> reads decimal digits into a uint64
  and stops with a range error as soon as the value leaves the type, with a syntax error
  at any other character or the empty string. The uint64 is an \<open>int\<close> with the
  overflow checks of the source written as comparisons with \<open>2^64 - 1\<close>.
\<close>

datatype num_failure = Syntax | Range

fun ParseUint_loop :: "int \<Rightarrow> string \<Rightarrow> num_failure + int" where
  "ParseUint_loop n [] = Inr n"
| "ParseUint_loop n (c # s) =
     (if is_digit c then
        (if n \<ge> (2 ^ 64 - 1) div 10 + 1 then Inl Range
         else (let n1 = n * 10 + (of_char c - 48)
               in if n1 > 2 ^ 64 - 1 then Inl Range else ParseUint_loop n1 s))
      else Inl Syntax)"

definition ParseUint :: "string \<Rightarrow> num_failure + int" where
  "ParseUint s = (if s = [] then Inl Syntax else ParseUint_loop 0 s)"

definition ParseInt :: "string \<Rightarrow> error + int" where
  "ParseInt s0 =
     (if s0 = [] then Inl (ErrSyntax s0)
      else
        (let neg = (hd s0 = CHR ''-'');
             s = (if hd s0 = CHR ''+'' \<or> hd s0 = CHR ''-'' then tl s0 else s0)
         in case ParseUint s of
              Inl Syntax \<Rightarrow> Inl (ErrSyntax s0)
            | r \<Rightarrow>
               (let un = (case r of Inr n \<Rightarrow> n | Inl _ \<Rightarrow> 2 ^ 64 - 1)
                in if \<not> neg \<and> un \<ge> 2 ^ 63 then Inl (ErrRange s0)
                   else if neg \<and> un > 2 ^ 63 then Inl (ErrRange s0)
                   else Inr (if neg then - un else un))))"

text \<open>\<^verbatim>\<open>strings.Split(s, "\n")\<close>: the pieces between the newlines, at least one.\<close>

fun Split :: "string \<Rightarrow> string list" where
  "Split [] = [[]]"
| "Split (c # s) =
     (if c = CHR 0x0A then [] # Split s
      else (case Split s of [] \<Rightarrow> [[c]] | l # ls \<Rightarrow> (c # l) # ls))"

section \<open>The collaborators: storage, OCSP generator, logger\<close>

record GenerateOCSPRequest =
  CertDER :: "byte list"
  Status :: string
  Reason :: int
  RevokedAt :: int

record AddCertificateRequest =
  Der :: "byte list"
  RegID :: int
  Ocsp :: "byte list"
  Issued :: int

text \<open>
  The program reaches the storage authority and the OCSP generator through the
  interfaces \<^verbatim>\<open>certificateStorage\<close> and \<^verbatim>\<open>ocspGenerator\<close>; what they answer is not
  the program's to decide. They are parameters: each operation maps the state \<open>'s\<close> of
  the remote side to an answer and a new state. Of an answer the program reads the error
  only (\<open>None\<close> is nil), of \<^verbatim>\<open>GenerateOCSP\<close> the response bytes too.
  \<^verbatim>\<open>x509.ParseCertificate\<close> (the Go library) and \<^verbatim>\<open>core.SerialToString\<close> (of the
  repository, not among the sources) are pure functions and parameters as well.
\<close>

record 's services =
  x509_ParseCertificate :: "byte list \<Rightarrow> error + Certificate"
  core_SerialToString :: "int \<Rightarrow> string"
  sa_GetCertificate :: "string \<Rightarrow> 's \<Rightarrow> error option \<times> 's"
  sa_GetPrecertificate :: "string \<Rightarrow> 's \<Rightarrow> error option \<times> 's"
  sa_AddCertificate :: "byte list \<Rightarrow> int \<Rightarrow> byte list \<Rightarrow> Time \<Rightarrow> 's \<Rightarrow> error option \<times> 's"
  sa_AddPrecertificate :: "AddCertificateRequest \<Rightarrow> 's \<Rightarrow> error option \<times> 's"
  ca_GenerateOCSP :: "GenerateOCSPRequest \<Rightarrow> 's \<Rightarrow> (error + byte list) \<times> 's"

text \<open>
  Everything the program does to the outside is an event of a trace, in order: a call
  of a remote operation with its arguments, or a call of the logger with its level, its
  format string and its arguments.
\<close>

datatype level = Info | Err | AuditErr

datatype event =
    Log level string "fmt_arg list"
  | CallGetCertificate string
  | CallGetPrecertificate string
  | CallGenerateOCSP GenerateOCSPRequest
  | CallAddCertificate "byte list" int "byte list" Time
  | CallAddPrecertificate AddCertificateRequest

record 's world =
  remote :: 's
  trace :: "event list"

fun is_log :: "event \<Rightarrow> bool" where
  "is_log (Log _ _ _) = True"
| "is_log _ = False"

fun is_lookup :: "event \<Rightarrow> bool" where
  "is_lookup (CallGetCertificate _) = True"
| "is_lookup (CallGetPrecertificate _) = True"
| "is_lookup _ = False"

fun is_ocsp :: "event \<Rightarrow> bool" where
  "is_ocsp (CallGenerateOCSP _) = True"
| "is_ocsp _ = False"

fun is_insert :: "event \<Rightarrow> bool" where
  "is_insert (CallAddCertificate _ _ _ _) = True"
| "is_insert (CallAddPrecertificate _) = True"
| "is_insert _ = False"

definition is_remote_call :: "event \<Rightarrow> bool" where
  "is_remote_call e = (is_lookup e \<or> is_ocsp e \<or> is_insert e)"

definition called :: "event \<Rightarrow> 's \<Rightarrow> 's world \<Rightarrow> 's world" where
  "called e s' w = \<lparr>remote = s', trace = trace w @ [e]\<rparr>"

definition GetCertificate :: "'s services \<Rightarrow> string \<Rightarrow> 's world \<Rightarrow> error option \<times> 's world" where
  "GetCertificate env serial w =
     (case sa_GetCertificate env serial (remote w) of
        (err, s') \<Rightarrow> (err, called (CallGetCertificate serial) s' w))"

definition GetPrecertificate :: "'s services \<Rightarrow> string \<Rightarrow> 's world \<Rightarrow> error option \<times> 's world" where
  "GetPrecertificate env serial w =
     (case sa_GetPrecertificate env serial (remote w) of
        (err, s') \<Rightarrow> (err, called (CallGetPrecertificate serial) s' w))"

definition AddCertificate ::
  "'s services \<Rightarrow> byte list \<Rightarrow> int \<Rightarrow> byte list \<Rightarrow> Time \<Rightarrow> 's world \<Rightarrow> error option \<times> 's world" where
  "AddCertificate env der regID ocsp issued w =
     (case sa_AddCertificate env der regID ocsp issued (remote w) of
        (err, s') \<Rightarrow> (err, called (CallAddCertificate der regID ocsp issued) s' w))"

definition AddPrecertificate ::
  "'s services \<Rightarrow> AddCertificateRequest \<Rightarrow> 's world \<Rightarrow> error option \<times> 's world" where
  "AddPrecertificate env req w =
     (case sa_AddPrecertificate env req (remote w) of
        (err, s') \<Rightarrow> (err, called (CallAddPrecertificate req) s' w))"

definition GenerateOCSP ::
  "'s services \<Rightarrow> GenerateOCSPRequest \<Rightarrow> 's world \<Rightarrow> (error + byte list) \<times> 's world" where
  "GenerateOCSP env req w =
     (case ca_GenerateOCSP env req (remote w) of
        (r, s') \<Rightarrow> (r, called (CallGenerateOCSP req) s' w))"

text \<open>
  Modelled from the spec: the logger (package \<^verbatim>\<open>log\<close> of the repository) is not among
  the sources. A call is recorded with its level: informational, error, or audit error.
\<close>

definition logf :: "level \<Rightarrow> string \<Rightarrow> fmt_arg list \<Rightarrow> 's world \<Rightarrow> 's world" where
  "logf l format args w = w\<lparr>trace := trace w @ [Log l format args]\<rparr>"

definition Infof :: "string \<Rightarrow> fmt_arg list \<Rightarrow> 's world \<Rightarrow> 's world" where
  "Infof = logf Info"

definition Errf :: "string \<Rightarrow> fmt_arg list \<Rightarrow> 's world \<Rightarrow> 's world" where
  "Errf = logf Err"

definition AuditErrf :: "string \<Rightarrow> fmt_arg list \<Rightarrow> 's world \<Rightarrow> 's world" where
  "AuditErrf = logf AuditErr"

section \<open>The pipeline\<close>

text \<open>
  \<^verbatim>\<open>checkDER\<close> returns (certificate, type, error) with the certificate nil exactly when
  the error is not: here the type, and the error or the certificate.
\<close>

definition checkDER ::
  "'s services \<Rightarrow> byte list \<Rightarrow> 's world \<Rightarrow> (orphanType \<times> (error + Certificate)) \<times> 's world" where
  "checkDER sai der w =
     (case x509_ParseCertificate sai der of
        Inl err \<Rightarrow>
          ((unknownOrphan, Inl (Errorf ''Failed to parse orphan DER: %s'' [ArgErr err])), w)
      | Inr orphan \<Rightarrow>
          (let orphanSerial = core_SerialToString sai (SerialNumber orphan);
               orphanTyp = orphanTypeForCert (Some orphan)
           in case (case orphanTyp of
                      certOrphan \<Rightarrow> GetCertificate sai orphanSerial w
                    | precertOrphan \<Rightarrow> GetPrecertificate sai orphanSerial w
                    | unknownOrphan \<Rightarrow> (Some (ErrorsNew ''unknown orphan type''), w)) of
                (None, w') \<Rightarrow> ((orphanTyp, Inl errAlreadyExists), w')
              | (Some err, w') \<Rightarrow>
                  if berrors_Is err NotFound then ((orphanTyp, Inr orphan), w')
                  else ((orphanTyp,
                         Inl (Errorf ''Existing %s lookup failed: %s''
                                [ArgTyp orphanTyp, ArgErr err])), w')))"

text \<open>Modelled from the spec: \<^verbatim>\<open>core.OCSPStatusGood\<close> is the status "good".\<close>

definition OCSPStatusGood :: string where
  "OCSPStatusGood = ''good''"

definition generateOCSP ::
  "'s services \<Rightarrow> byte list \<Rightarrow> 's world \<Rightarrow> (error + byte list) \<times> 's world" where
  "generateOCSP ca certDER w =
     (case GenerateOCSP ca
             \<lparr>CertDER = certDER, Status = OCSPStatusGood, Reason = 0, RevokedAt = 0\<rparr> w of
        (Inl err, w') \<Rightarrow> (Inl err, w')
      | (Inr response, w') \<Rightarrow> (Inr response, w'))"

text \<open>
  \<^verbatim>\<open>storeParsedLogLine\<close>. The storage and the OCSP generator of the source's parameter
  list are the one record of services, the logger is the trace of the world. The package
  variable \<^verbatim>\<open>backdateDuration\<close>, set once by \<^verbatim>\<open>setup\<close>, is a parameter. The result is
  (found, added, type) and the new world.
\<close>

definition storeParsedLogLine ::
  "'s services \<Rightarrow> Duration \<Rightarrow> string \<Rightarrow> 's world \<Rightarrow> (bool \<times> bool \<times> orphanType) \<times> 's world" where
  "storeParsedLogLine sa backdateDuration line w =
     (if \<not> Contains line (''orphaning '' @ String certOrphan) \<and>
         \<not> Contains line (''orphaning '' @ String precertOrphan)
      then ((False, False, unknownOrphan), w)
      else if \<not> Contains line ''cert='' then ((False, False, unknownOrphan), w)
      else
        (let derStr = derOrphan_FindStringSubmatch line
         in if length derStr \<le> 1
            then ((True, False, unknownOrphan),
                  AuditErrf ''Didn't match regex for cert: %s'' [ArgStr line] w)
            else
              (case DecodeString (derStr ! 1) of
                 Inl err \<Rightarrow>
                   ((True, False, unknownOrphan),
                    AuditErrf ''Couldn't decode hex: %s, [%s]'' [ArgErr err, ArgStr line] w)
               | Inr der \<Rightarrow>
                   (case checkDER sa der w of
                      ((typ, Inl err), w1) \<Rightarrow>
                        ((True, False, typ),
                         (if err = errAlreadyExists then Infof else Errf)
                            ''%s, [%s]'' [ArgErr err, ArgStr line] w1)
                    | ((typ, Inr cert), w1) \<Rightarrow>
                        (let regStr = regOrphan_FindStringSubmatch line
                         in if length regStr \<le> 1
                            then ((True, False, typ),
                                  AuditErrf ''regID variable is empty, [%s]'' [ArgStr line] w1)
                            else
                              (case ParseInt (regStr ! 1) of
                                 Inl err \<Rightarrow>
                                   ((True, False, typ),
                                    AuditErrf ''Couldn't parse regID: %s, [%s]''
                                      [ArgErr err, ArgStr line] w1)
                               | Inr regID \<Rightarrow>
                                   (case generateOCSP sa der w1 of
                                      (Inl err, w2) \<Rightarrow>
                                        ((True, False, typ),
                                         AuditErrf ''Couldn't generate OCSP: %s, [%s]''
                                           [ArgErr err, ArgStr line] w2)
                                    | (Inr response, w2) \<Rightarrow>
                                        (let issuedDate = Add (NotBefore cert) backdateDuration
                                         in case (case typ of
                                                    certOrphan \<Rightarrow>
                                                      AddCertificate sa der regID response
                                                        issuedDate w2
                                                  | precertOrphan \<Rightarrow>
                                                      (let issued = UnixNano issuedDate
                                                       in AddPrecertificate sa
                                                            \<lparr>Der = der, RegID = regID,
                                                             Ocsp = response, Issued = issued\<rparr>
                                                            w2)
                                                  | unknownOrphan \<Rightarrow>
                                                      (Some (ErrorsNew ''unknown orphan type''),
                                                       w2)) of
                                              (Some err, w3) \<Rightarrow>
                                                ((True, False, typ),
                                                 AuditErrf
                                                   ''Failed to store certificate: %s, [%s]''
                                                   [ArgErr err, ArgStr line] w3)
                                            | (None, w3) \<Rightarrow> ((True, True, typ), w3)))))))))"

section \<open>The two modes of main\<close>

subsection \<open>parse-ca-log\<close>

text \<open>
  The four counters are int64 in the source. Each line adds at most one to a counter, and
  a log held in memory has fewer than \<open>2^63\<close> lines, so they cannot wrap: they are
  \<open>int\<close> here.
\<close>

record counters =
  certOrphansFound :: int
  certOrphansAdded :: int
  precertOrphansFound :: int
  precertOrphansAdded :: int

definition no_orphans :: counters where
  "no_orphans = \<lparr>certOrphansFound = 0, certOrphansAdded = 0,
                  precertOrphansFound = 0, precertOrphansAdded = 0\<rparr>"

text \<open>The body of the loop over the lines, from the counters and the world to the new ones.\<close>

definition line_step ::
  "'s services \<Rightarrow> Duration \<Rightarrow> string \<Rightarrow> counters \<times> 's world \<Rightarrow> counters \<times> 's world" where
  "line_step sa backdateDuration line st =
     (case st of (c, w) \<Rightarrow>
        if line = [] then (c, w)
        else
          (case storeParsedLogLine sa backdateDuration line w of
             ((found, added, typ), w1) \<Rightarrow>
               (case typ of
                  certOrphan \<Rightarrow>
                    (if found
                     then (if added
                           then c\<lparr>certOrphansFound := certOrphansFound c + 1,
                                  certOrphansAdded := certOrphansAdded c + 1\<rparr>
                           else c\<lparr>certOrphansFound := certOrphansFound c + 1\<rparr>, w1)
                     else (c, w1))
                | precertOrphan \<Rightarrow>
                    (if found
                     then (if added
                           then c\<lparr>precertOrphansFound := precertOrphansFound c + 1,
                                  precertOrphansAdded := precertOrphansAdded c + 1\<rparr>
                           else c\<lparr>precertOrphansFound := precertOrphansFound c + 1\<rparr>, w1)
                     else (c, w1))
                | unknownOrphan \<Rightarrow>
                    (c, Errf ''Found orphan type %s'' [ArgTyp typ] w1))))"

primrec lines_loop ::
  "'s services \<Rightarrow> Duration \<Rightarrow> string list \<Rightarrow> counters \<times> 's world \<Rightarrow> counters \<times> 's world" where
  "lines_loop sa backdateDuration [] st = st"
| "lines_loop sa backdateDuration (line # rest) st =
     lines_loop sa backdateDuration rest (line_step sa backdateDuration line st)"

definition parse_ca_log ::
  "'s services \<Rightarrow> Duration \<Rightarrow> string \<Rightarrow> 's world \<Rightarrow> counters \<times> 's world" where
  "parse_ca_log sa backdateDuration logData w =
     (case lines_loop sa backdateDuration (Split logData) (no_orphans, w) of
        (c, w1) \<Rightarrow>
          (c,
           Infof ''Found %d precertificate orphans and added %d to the database''
             [ArgInt (precertOrphansFound c), ArgInt (precertOrphansAdded c)]
             (Infof ''Found %d certificate orphans and added %d to the database''
                [ArgInt (certOrphansFound c), ArgInt (certOrphansAdded c)] w1)))"

subsection \<open>parse-der\<close>

text \<open>
  Modelled from the spec: \<^verbatim>\<open>cmd.FailOnError\<close> is not among the sources; on an error
  that is not nil it ends the process with a diagnostic. The run of the mode takes the
  path of the DER file and the registration id of the flags, and the bytes that reading
  the file at that path returned. It ends as \<open>Usage\<close> when the path is empty or the
  registration id is 0 (\<^verbatim>\<open>usage()\<close> prints the usage and exits with status 1, before
  the file is read and before any call), as \<open>FailOnError\<close> with the error and the
  message of the failing check, or as \<open>Completed\<close>.
\<close>

datatype exit_state = Completed | FailOnError error string | Usage

definition parse_der ::
  "'s services \<Rightarrow> Duration \<Rightarrow> string \<Rightarrow> byte list \<Rightarrow> int \<Rightarrow> 's world
     \<Rightarrow> exit_state \<times> 's world" where
  "parse_der sa backdateDuration derPath der regID w =
     (if derPath = [] \<or> regID = 0 then (Usage, w)
      else
        (case checkDER sa der w of
           ((typ, Inl err), w1) \<Rightarrow> (FailOnError err ''Pre-AddCertificate checks failed'', w1)
         | ((typ, Inr cert), w1) \<Rightarrow>
             (let issuedDate = Add (NotBefore cert) (1 * backdateDuration)
              in case generateOCSP sa der w1 of
                   (Inl err, w2) \<Rightarrow> (FailOnError err ''Generating OCSP'', w2)
                 | (Inr response, w2) \<Rightarrow>
                     (case (case typ of
                              certOrphan \<Rightarrow>
                                AddCertificate sa der regID response issuedDate w2
                            | precertOrphan \<Rightarrow>
                                (let issued = UnixNano issuedDate
                                 in AddPrecertificate sa
                                      \<lparr>Der = der, RegID = regID, Ocsp = response,
                                       Issued = issued\<rparr> w2)
                            | unknownOrphan \<Rightarrow>
                                (Some (ErrorsNew ''unknown orphan type''), w2)) of
                        (Some err, w3) \<Rightarrow>
                          (FailOnError err ''Failed to add certificate to database'', w3)
                      | (None, w3) \<Rightarrow> (Completed, w3)))))"

section \<open>Vocabulary of the properties, and a storage double\<close>

text \<open>The events a run added to the trace.\<close>

definition new_events :: "'s world \<Rightarrow> 's world \<Rightarrow> event list" where
  "new_events w w' = drop (length (trace w)) (trace w')"

text \<open>
  The payloads of a line: for every place where \<^verbatim>\<open>cert=[\<close> stands, the text after it up
  to the next closing bracket (or the end of the line).
\<close>

fun payloads :: "string \<Rightarrow> string list" where
  "payloads [] = []"
| "payloads (c # s) =
     (if take 6 (c # s) = ''cert=[''
      then takeWhile (\<lambda>x. x \<noteq> CHR '']'') (drop 6 (c # s)) # payloads s
      else payloads s)"

text \<open>
  An in-memory double of the collaborators, for concrete runs. Its state is the serials
  of the stored certificates and of the stored precertificates. It knows two DER
  encodings: the byte \<open>0xab\<close> is a certificate, the byte \<open>0xcd\<close> a precertificate (it has
  the poison extension), both valid from 2020-01-01T00:00:00Z.
\<close>

definition test_cert :: Certificate where
  "test_cert = \<lparr>SerialNumber = 1, NotBefore = Date 2020 1 1 0 0 0, Extensions = []\<rparr>"

definition test_precert :: Certificate where
  "test_precert =
     \<lparr>SerialNumber = 2, NotBefore = Date 2020 1 1 0 0 0,
      Extensions = [\<lparr>Id = [2, 5, 29, 15]\<rparr>, \<lparr>Id = [1, 3, 6, 1, 4, 1, 11129, 2, 4, 3]\<rparr>]\<rparr>"

definition double_parse :: "byte list \<Rightarrow> error + Certificate" where
  "double_parse der =
     (if der = [0xab] then Inr test_cert
      else if der = [0xcd] then Inr test_precert
      else Inl (X509Error ''malformed certificate''))"

definition double_serial :: "int \<Rightarrow> string" where
  "double_serial n = (if n = 1 then ''01'' else if n = 2 then ''02'' else ''ff'')"

definition double_lookup :: "string list \<Rightarrow> string \<Rightarrow> error option" where
  "double_lookup stored serial =
     (if serial \<in> set stored then None
      else Some (BoulderError NotFound ''no such serial''))"

definition memory_services :: "(string list \<times> string list) services" where
  "memory_services =
     \<lparr>x509_ParseCertificate = double_parse,
      core_SerialToString = double_serial,
      sa_GetCertificate = (\<lambda>serial s. (double_lookup (fst s) serial, s)),
      sa_GetPrecertificate = (\<lambda>serial s. (double_lookup (snd s) serial, s)),
      sa_AddCertificate = (\<lambda>der regID ocsp issued s.
         (case double_parse der of
            Inl e \<Rightarrow> (Some e, s)
          | Inr c \<Rightarrow> (None, (double_serial (SerialNumber c) # fst s, snd s)))),
      sa_AddPrecertificate = (\<lambda>req s.
         (case double_parse (Der req) of
            Inl e \<Rightarrow> (Some e, s)
          | Inr c \<Rightarrow> (None, (fst s, double_serial (SerialNumber c) # snd s)))),
      ca_GenerateOCSP = (\<lambda>req s. (Inr [0x01], s))\<rparr>"

text \<open>The double with an OCSP generator that is down.\<close>

definition ocsp_down_services :: "(string list \<times> string list) services" where
  "ocsp_down_services =
     memory_services\<lparr>ca_GenerateOCSP := (\<lambda>req s. (Inl (RemoteError ''unavailable''), s))\<rparr>"

text \<open>
  The double with a storage where another run stores every serial between the lookup
  and the insert: the lookups find nothing, the inserts fail on the uniqueness constraint.
\<close>

definition racing_services :: "(string list \<times> string list) services" where
  "racing_services =
     memory_services
       \<lparr>sa_AddCertificate := (\<lambda>der regID ocsp issued s.
            (Some (BoulderError Duplicate ''duplicate serial''), s)),
        sa_AddPrecertificate := (\<lambda>req s.
            (Some (BoulderError Duplicate ''duplicate serial''), s))\<rparr>"

definition empty_world :: "(string list \<times> string list) world" where
  "empty_world = \<lparr>remote = ([], []), trace = []\<rparr>"

definition stored_world :: "(string list \<times> string list) world" where
  "stored_world = \<lparr>remote = ([''01''], [''02'']), trace = []\<rparr>"

definition one_hour :: Duration where
  "one_hour = 3600 * 1000000000"

text \<open>
  An insert event carries the issued date \<open>t\<close> (certificate insert) or the nanoseconds
  \<open>n\<close> (precertificate insert); every other event passes.
\<close>

fun issued_as :: "Time \<Rightarrow> int \<Rightarrow> event \<Rightarrow> bool" where
  "issued_as t n (CallAddCertificate _ _ _ t') = (t' = t)"
| "issued_as t n (CallAddPrecertificate req) = (Issued req = n)"
| "issued_as t n _ = True"

text \<open>In both pairs of counters the added one is at most the found one.\<close>

definition added_le_found :: "counters \<Rightarrow> bool" where
  "added_le_found c \<longleftrightarrow>
     0 \<le> certOrphansAdded c \<and> certOrphansAdded c \<le> certOrphansFound c \<and>
     0 \<le> precertOrphansAdded c \<and> precertOrphansAdded c \<le> precertOrphansFound c"

section \<open>Classification\<close>

lemma has_poison_iff: "has_poison exts \<longleftrightarrow> (\<exists>ext \<in> set exts. Id ext = poisonExt)"
  by (induction exts) auto

text \<open>
  C7. For a parsed certificate the classification is precertificate when one of its
  extensions has the object identifier 1.3.6.1.4.1.11129.2.4.3 and certificate otherwise;
  the unknown type is returned exactly for the nil certificate.
\<close>

theorem orphanTypeForCert_classifies:
  "orphanTypeForCert (Some cert) =
     (if \<exists>ext \<in> set (Extensions cert). Id ext = [1, 3, 6, 1, 4, 1, 11129, 2, 4, 3]
      then precertOrphan else certOrphan)
   \<and> (orphanTypeForCert c = unknownOrphan \<longleftrightarrow> c = None)"
proof
  show "orphanTypeForCert (Some cert) =
     (if \<exists>ext \<in> set (Extensions cert). Id ext = [1, 3, 6, 1, 4, 1, 11129, 2, 4, 3]
      then precertOrphan else certOrphan)"
    using has_poison_iff [of "Extensions cert"] by (simp add: poisonExt_def)
  show "orphanTypeForCert c = unknownOrphan \<longleftrightarrow> c = None"
    by (cases c) simp_all
qed

theorem orphanTypeForCert_classifies_witness:
  "orphanTypeForCert (Some test_precert) = precertOrphan
   \<and> orphanTypeForCert (Some test_cert) = certOrphan
   \<and> orphanTypeForCert None = unknownOrphan"
  using orphanTypeForCert_classifies [of test_precert None]
        orphanTypeForCert_classifies [of test_cert None]
  by (simp add: test_precert_def test_cert_def)

section \<open>The scanner: labels and marker\<close>

lemma Contains_prefix: "Contains (substr @ post) substr"
proof (cases "substr @ post")
  case Nil
  then show ?thesis by simp
next
  case (Cons a list)
  have "take (length substr) (substr @ post) = substr" by simp
  then show ?thesis using Cons by simp
qed

text \<open>\<open>Contains\<close> is the substring relation.\<close>

lemma Contains_iff: "Contains s substr \<longleftrightarrow> (\<exists>pre post. s = pre @ substr @ post)"
proof (induction s)
  case Nil
  then show ?case by auto
next
  case (Cons c s)
  show ?case
  proof
    assume "Contains (c # s) substr"
    then consider "take (length substr) (c # s) = substr" | "Contains s substr" by auto
    then show "\<exists>pre post. c # s = pre @ substr @ post"
    proof cases
      case 1
      then have "c # s = [] @ substr @ drop (length substr) (c # s)"
        by (metis append_Nil append_take_drop_id)
      then show ?thesis by blast
    next
      case 2
      then obtain pre post where "s = pre @ substr @ post" using Cons.IH by auto
      then have "c # s = (c # pre) @ substr @ post" by simp
      then show ?thesis by blast
    qed
  next
    assume "\<exists>pre post. c # s = pre @ substr @ post"
    then obtain pre post where eq: "c # s = pre @ substr @ post" by auto
    show "Contains (c # s) substr"
    proof (cases pre)
      case Nil
      then show ?thesis using eq Contains_prefix [of substr post] by simp
    next
      case (Cons a pre')
      then have "s = pre' @ substr @ post" using eq by simp
      then show ?thesis using Cons.IH by auto
    qed
  qed
qed

text \<open>
  The search finds a match exactly when some substring of the line is in the language of
  the pattern, and what it returns is such a substring with its group.
\<close>

lemma match_here_shape:
  "match_here lit cls s = [] \<or>
   (\<exists>g. match_here lit cls s = [lit @ g @ '']'', g] \<and> g \<noteq> [] \<and> list_all cls g
        \<and> take (length (lit @ g @ '']'')) s = lit @ g @ '']'')"
proof (cases "match_here lit cls s = []")
  case True
  then show ?thesis by simp
next
  case False
  let ?rest = "drop (length lit) s"
  let ?g = "takeWhile cls ?rest"
  from False have lit: "take (length lit) s = lit" and g: "?g \<noteq> []"
    and br: "take 1 (dropWhile cls ?rest) = '']''"
    and m: "match_here lit cls s = [lit @ ?g @ '']'', ?g]"
    by (simp_all add: match_here_def Let_def split: if_splits)
  from br obtain r' where r: "dropWhile cls ?rest = CHR '']'' # r'"
    by (cases "dropWhile cls ?rest") auto
  have "s = take (length lit) s @ ?rest" by simp
  also have "\<dots> = lit @ ?g @ CHR '']'' # r'"
    using lit takeWhile_dropWhile_id [of cls ?rest] r by simp
  finally have "s = (lit @ ?g @ '']'') @ r'" by simp
  then have "take (length (lit @ ?g @ '']'')) s = lit @ ?g @ '']''"
    by (metis append_eq_conv_conj)
  moreover have "list_all cls ?g"
    by (auto simp: list_all_iff dest: set_takeWhileD)
  ultimately show ?thesis using m g by blast
qed

lemma find_leftmost_sound:
  "find_leftmost lit cls line = [] \<or>
   (\<exists>g. find_leftmost lit cls line = [lit @ g @ '']'', g] \<and> g \<noteq> [] \<and> list_all cls g
        \<and> Contains line (lit @ g @ '']''))"
proof (induction line)
  case Nil
  then show ?case by simp
next
  case (Cons c s)
  show ?case
  proof (cases "match_here lit cls (c # s) = []")
    case True
    then show ?thesis using Cons.IH by auto
  next
    case False
    with match_here_shape [of lit cls "c # s"] obtain g where
      "match_here lit cls (c # s) = [lit @ g @ '']'', g]" "g \<noteq> []" "list_all cls g"
      "take (length (lit @ g @ '']'')) (c # s) = lit @ g @ '']''"
      by blast
    then show ?thesis using False by auto
  qed
qed

lemma match_here_complete:
  assumes "g \<noteq> []" "list_all cls g" "\<not> cls (CHR '']'')"
  shows "match_here lit cls (lit @ g @ '']'' @ post) = [lit @ g @ '']'', g]"
proof -
  have "takeWhile cls (g @ CHR '']'' # post) = g"
    using assms(2,3) by (simp add: list_all_iff takeWhile_tail)
  moreover have "dropWhile cls (g @ CHR '']'' # post) = CHR '']'' # post"
    using assms(2,3) by (simp add: list_all_iff dropWhile_append3)
  ultimately show ?thesis using assms(1) by (simp add: match_here_def)
qed

lemma find_leftmost_complete:
  assumes "g \<noteq> []" "list_all cls g" "\<not> cls (CHR '']'')"
  shows "find_leftmost lit cls (pre @ lit @ g @ '']'' @ post) \<noteq> []"
proof (induction pre)
  case Nil
  have "lit @ g @ '']'' @ post \<noteq> []" using assms(1) by simp
  then obtain c s where cs: "lit @ g @ '']'' @ post = c # s" by (cases "lit @ g @ '']'' @ post") auto
  have "match_here lit cls (c # s) \<noteq> []"
    using match_here_complete [OF assms, of lit post] cs by simp
  then show ?case using cs by simp
next
  case (Cons c pre)
  then show ?case by simp
qed

lemma storeParsedLogLine_no_match:
  "(\<not> Contains line ''orphaning certificate'' \<and> \<not> Contains line ''orphaning precertificate'')
     \<or> \<not> Contains line ''cert='' \<Longrightarrow>
   storeParsedLogLine sa bd line w = ((False, False, unknownOrphan), w)"
  by (auto simp: storeParsedLogLine_def)




section \<open>The pipeline, branch by branch\<close>

subsection \<open>checkDER\<close>

lemma checkDER_parse_fail:
  "x509_ParseCertificate sa der = Inl e \<Longrightarrow>
   checkDER sa der w = ((unknownOrphan, Inl (Errorf ''Failed to parse orphan DER: %s'' [ArgErr e])), w)"
  by (simp add: checkDER_def)

lemma checkDER_cert:
  "x509_ParseCertificate sa der = Inr cert \<Longrightarrow> \<not> has_poison (Extensions cert) \<Longrightarrow>
   sa_GetCertificate sa (core_SerialToString sa (SerialNumber cert)) (remote w) = (r, s') \<Longrightarrow>
   checkDER sa der w =
     ((certOrphan,
       (case r of
          None \<Rightarrow> Inl errAlreadyExists
        | Some e \<Rightarrow>
            if berrors_Is e NotFound then Inr cert
            else Inl (Errorf ''Existing %s lookup failed: %s'' [ArgTyp certOrphan, ArgErr e]))),
      \<lparr>remote = s', trace = trace w @ [CallGetCertificate (core_SerialToString sa (SerialNumber cert))]\<rparr>)"
  by (simp add: checkDER_def GetCertificate_def called_def split: option.splits)

lemma checkDER_precert:
  "x509_ParseCertificate sa der = Inr cert \<Longrightarrow> has_poison (Extensions cert) \<Longrightarrow>
   sa_GetPrecertificate sa (core_SerialToString sa (SerialNumber cert)) (remote w) = (r, s') \<Longrightarrow>
   checkDER sa der w =
     ((precertOrphan,
       (case r of
          None \<Rightarrow> Inl errAlreadyExists
        | Some e \<Rightarrow>
            if berrors_Is e NotFound then Inr cert
            else Inl (Errorf ''Existing %s lookup failed: %s'' [ArgTyp precertOrphan, ArgErr e]))),
      \<lparr>remote = s', trace = trace w @ [CallGetPrecertificate (core_SerialToString sa (SerialNumber cert))]\<rparr>)"
  by (simp add: checkDER_def GetPrecertificate_def called_def split: option.splits)

text \<open>What any run of checkDER does to the trace and what its results are.\<close>

lemma checkDER_shape:
  assumes "checkDER sa der w = ((t, r), w1)"
  shows "\<exists>evs. trace w1 = trace w @ evs \<and> length evs \<le> 1 \<and> list_all is_lookup evs"
    and "r = Inr cert \<Longrightarrow> x509_ParseCertificate sa der = Inr cert \<and> t = orphanTypeForCert (Some cert) \<and> t \<noteq> unknownOrphan"
    and "t = unknownOrphan \<Longrightarrow> \<exists>e. x509_ParseCertificate sa der = Inl e \<and> w1 = w"
proof -
  show "\<exists>evs. trace w1 = trace w @ evs \<and> length evs \<le> 1 \<and> list_all is_lookup evs"
  proof (cases "x509_ParseCertificate sa der")
    case (Inl e)
    then show ?thesis using assms by (simp add: checkDER_parse_fail)
  next
    case (Inr c)
    show ?thesis
    proof (cases "has_poison (Extensions c)")
      case True
      obtain r' s' where "sa_GetPrecertificate sa (core_SerialToString sa (SerialNumber c)) (remote w) = (r', s')" by force
      from checkDER_precert [OF Inr True this] assms show ?thesis by auto
    next
      case False
      obtain r' s' where "sa_GetCertificate sa (core_SerialToString sa (SerialNumber c)) (remote w) = (r', s')" by force
      from checkDER_cert [OF Inr False this] assms show ?thesis by auto
    qed
  qed
  show "r = Inr cert \<Longrightarrow> x509_ParseCertificate sa der = Inr cert \<and> t = orphanTypeForCert (Some cert) \<and> t \<noteq> unknownOrphan"
    using assms
    by (auto simp: checkDER_def Let_def split: sum.splits orphanType.splits prod.splits option.splits if_splits)
  show "t = unknownOrphan \<Longrightarrow> \<exists>e. x509_ParseCertificate sa der = Inl e \<and> w1 = w"
    using assms
    by (auto simp: checkDER_def Let_def split: sum.splits orphanType.splits prod.splits option.splits if_splits)
qed

subsection \<open>storeParsedLogLine\<close>

lemma store_regex_fail:
  assumes "Contains line ''orphaning certificate'' \<or> Contains line ''orphaning precertificate''"
    and "Contains line ''cert=''"
    and "length (derOrphan_FindStringSubmatch line) \<le> 1"
  shows "storeParsedLogLine sa bd line w =
     ((True, False, unknownOrphan), AuditErrf ''Didn't match regex for cert: %s'' [ArgStr line] w)"
  using assms by (simp add: storeParsedLogLine_def)

lemma store_hex_fail:
  assumes "Contains line ''orphaning certificate'' \<or> Contains line ''orphaning precertificate''"
    and "Contains line ''cert=''"
    and "\<not> length (derOrphan_FindStringSubmatch line) \<le> 1"
    and "DecodeString (derOrphan_FindStringSubmatch line ! 1) = Inl err"
  shows "storeParsedLogLine sa bd line w =
     ((True, False, unknownOrphan),
      AuditErrf ''Couldn't decode hex: %s, [%s]'' [ArgErr err, ArgStr line] w)"
  using assms by (simp add: storeParsedLogLine_def)

lemma store_checkDER_fail:
  assumes "Contains line ''orphaning certificate'' \<or> Contains line ''orphaning precertificate''"
    and "Contains line ''cert=''"
    and "\<not> length (derOrphan_FindStringSubmatch line) \<le> 1"
    and "DecodeString (derOrphan_FindStringSubmatch line ! 1) = Inr der"
    and "checkDER sa der w = ((t, Inl err), w1)"
  shows "storeParsedLogLine sa bd line w =
     ((True, False, t),
      (if err = errAlreadyExists then Infof else Errf) ''%s, [%s]'' [ArgErr err, ArgStr line] w1)"
  using assms by (simp add: storeParsedLogLine_def)

lemma store_regID_missing:
  assumes "Contains line ''orphaning certificate'' \<or> Contains line ''orphaning precertificate''"
    and "Contains line ''cert=''"
    and "\<not> length (derOrphan_FindStringSubmatch line) \<le> 1"
    and "DecodeString (derOrphan_FindStringSubmatch line ! 1) = Inr der"
    and "checkDER sa der w = ((t, Inr cert), w1)"
    and "length (regOrphan_FindStringSubmatch line) \<le> 1"
  shows "storeParsedLogLine sa bd line w =
     ((True, False, t), AuditErrf ''regID variable is empty, [%s]'' [ArgStr line] w1)"
  using assms by (simp add: storeParsedLogLine_def)

lemma store_regID_malformed:
  assumes "Contains line ''orphaning certificate'' \<or> Contains line ''orphaning precertificate''"
    and "Contains line ''cert=''"
    and "\<not> length (derOrphan_FindStringSubmatch line) \<le> 1"
    and "DecodeString (derOrphan_FindStringSubmatch line ! 1) = Inr der"
    and "checkDER sa der w = ((t, Inr cert), w1)"
    and "\<not> length (regOrphan_FindStringSubmatch line) \<le> 1"
    and "ParseInt (regOrphan_FindStringSubmatch line ! 1) = Inl err"
  shows "storeParsedLogLine sa bd line w =
     ((True, False, t),
      AuditErrf ''Couldn't parse regID: %s, [%s]'' [ArgErr err, ArgStr line] w1)"
  using assms by (simp add: storeParsedLogLine_def)

lemma store_ocsp_fail:
  assumes "Contains line ''orphaning certificate'' \<or> Contains line ''orphaning precertificate''"
    and "Contains line ''cert=''"
    and "\<not> length (derOrphan_FindStringSubmatch line) \<le> 1"
    and "DecodeString (derOrphan_FindStringSubmatch line ! 1) = Inr der"
    and "checkDER sa der w = ((t, Inr cert), w1)"
    and "\<not> length (regOrphan_FindStringSubmatch line) \<le> 1"
    and "ParseInt (regOrphan_FindStringSubmatch line ! 1) = Inr regID"
    and "generateOCSP sa der w1 = (Inl err, w2)"
  shows "storeParsedLogLine sa bd line w =
     ((True, False, t),
      AuditErrf ''Couldn't generate OCSP: %s, [%s]'' [ArgErr err, ArgStr line] w2)"
  using assms by (simp add: storeParsedLogLine_def)

lemma store_cert_insert:
  assumes "Contains line ''orphaning certificate'' \<or> Contains line ''orphaning precertificate''"
    and "Contains line ''cert=''"
    and "\<not> length (derOrphan_FindStringSubmatch line) \<le> 1"
    and "DecodeString (derOrphan_FindStringSubmatch line ! 1) = Inr der"
    and "checkDER sa der w = ((certOrphan, Inr cert), w1)"
    and "\<not> length (regOrphan_FindStringSubmatch line) \<le> 1"
    and "ParseInt (regOrphan_FindStringSubmatch line ! 1) = Inr regID"
    and "generateOCSP sa der w1 = (Inr response, w2)"
    and "AddCertificate sa der regID response (Add (NotBefore cert) bd) w2 = (r, w3)"
  shows "storeParsedLogLine sa bd line w =
     (case r of
        Some err \<Rightarrow>
          ((True, False, certOrphan),
           AuditErrf ''Failed to store certificate: %s, [%s]'' [ArgErr err, ArgStr line] w3)
      | None \<Rightarrow> ((True, True, certOrphan), w3))"
  using assms by (simp add: storeParsedLogLine_def split: option.splits)

lemma store_precert_insert:
  assumes "Contains line ''orphaning certificate'' \<or> Contains line ''orphaning precertificate''"
    and "Contains line ''cert=''"
    and "\<not> length (derOrphan_FindStringSubmatch line) \<le> 1"
    and "DecodeString (derOrphan_FindStringSubmatch line ! 1) = Inr der"
    and "checkDER sa der w = ((precertOrphan, Inr cert), w1)"
    and "\<not> length (regOrphan_FindStringSubmatch line) \<le> 1"
    and "ParseInt (regOrphan_FindStringSubmatch line ! 1) = Inr regID"
    and "generateOCSP sa der w1 = (Inr response, w2)"
    and "AddPrecertificate sa
           \<lparr>Der = der, RegID = regID, Ocsp = response,
            Issued = UnixNano (Add (NotBefore cert) bd)\<rparr> w2 = (r, w3)"
  shows "storeParsedLogLine sa bd line w =
     (case r of
        Some err \<Rightarrow>
          ((True, False, precertOrphan),
           AuditErrf ''Failed to store certificate: %s, [%s]'' [ArgErr err, ArgStr line] w3)
      | None \<Rightarrow> ((True, True, precertOrphan), w3))"
  using assms by (simp add: storeParsedLogLine_def split: option.splits)

subsection \<open>The trace\<close>

lemma trace_logf: "trace (logf l f a w) = trace w @ [Log l f a]"
  by (simp add: logf_def)

lemma remote_logf: "remote (logf l f a w) = remote w"
  by (simp add: logf_def)

lemma trace_Infof: "trace (Infof f a w) = trace w @ [Log Info f a]"
  by (simp add: Infof_def trace_logf)

lemma trace_Errf: "trace (Errf f a w) = trace w @ [Log Err f a]"
  by (simp add: Errf_def trace_logf)

lemma trace_AuditErrf: "trace (AuditErrf f a w) = trace w @ [Log AuditErr f a]"
  by (simp add: AuditErrf_def trace_logf)

lemmas trace_log = trace_Infof trace_Errf trace_AuditErrf

lemma generateOCSP_eq:
  "ca_GenerateOCSP sa \<lparr>CertDER = der, Status = ''good'', Reason = 0, RevokedAt = 0\<rparr> (remote w) = (r, s') \<Longrightarrow>
   generateOCSP sa der w =
     (r, \<lparr>remote = s',
          trace = trace w @ [CallGenerateOCSP \<lparr>CertDER = der, Status = ''good'', Reason = 0, RevokedAt = 0\<rparr>]\<rparr>)"
  by (cases r) (simp_all add: generateOCSP_def GenerateOCSP_def called_def OCSPStatusGood_def)

lemma generateOCSP_trace:
  assumes "generateOCSP sa der w = (r, w')"
  shows "trace w' = trace w @ [CallGenerateOCSP \<lparr>CertDER = der, Status = ''good'', Reason = 0, RevokedAt = 0\<rparr>]"
proof -
  obtain r' s' where "ca_GenerateOCSP sa \<lparr>CertDER = der, Status = ''good'', Reason = 0, RevokedAt = 0\<rparr> (remote w) = (r', s')"
    by force
  from generateOCSP_eq [OF this] assms show ?thesis by auto
qed

lemma AddCertificate_trace:
  "AddCertificate sa der regID resp t w = (r, w') \<Longrightarrow>
   trace w' = trace w @ [CallAddCertificate der regID resp t]"
  by (auto simp: AddCertificate_def called_def split: prod.splits)

lemma AddPrecertificate_trace:
  "AddPrecertificate sa req w = (r, w') \<Longrightarrow> trace w' = trace w @ [CallAddPrecertificate req]"
  by (auto simp: AddPrecertificate_def called_def split: prod.splits)

text \<open>
  Every event of a run of storeParsedLogLine: a property that holds of the log calls, the
  lookups, the OCSP requests and of the two inserts with the issued date of the parsed
  certificate holds of all of them.
\<close>

lemma store_events:
  assumes Qlog: "\<And>l f a. Q (Log l f a)"
    and Qlookup: "\<And>e. is_lookup e \<Longrightarrow> Q e"
    and Qocsp: "\<And>r. Q (CallGenerateOCSP r)"
    and Qins: "\<And>der cert regID resp.
        DecodeString (derOrphan_FindStringSubmatch line ! 1) = Inr der \<Longrightarrow>
        x509_ParseCertificate sa der = Inr cert \<Longrightarrow>
        Q (CallAddCertificate der regID resp (Add (NotBefore cert) bd)) \<and>
        Q (CallAddPrecertificate \<lparr>Der = der, RegID = regID, Ocsp = resp,
             Issued = UnixNano (Add (NotBefore cert) bd)\<rparr>)"
  shows "\<exists>evs. trace (snd (storeParsedLogLine sa bd line w)) = trace w @ evs \<and> list_all Q evs"
proof -
  let ?labels = "Contains line ''orphaning certificate'' \<or> Contains line ''orphaning precertificate''"
  let ?marker = "Contains line ''cert=''"
  let ?derStr = "derOrphan_FindStringSubmatch line"
  let ?regStr = "regOrphan_FindStringSubmatch line"
  show ?thesis
  proof (cases "?labels \<and> ?marker")
    case False
    then have "storeParsedLogLine sa bd line w = ((False, False, unknownOrphan), w)"
      using storeParsedLogLine_no_match [of line sa bd w] by blast
    then show ?thesis by simp
  next
    case lm: True
    then have l: ?labels and m: ?marker by auto
    show ?thesis
    proof (cases "length ?derStr \<le> 1")
      case True
      show ?thesis
        by (simp add: store_regex_fail [OF l m True] trace_log Qlog)
    next
      case long: False
      show ?thesis
      proof (cases "DecodeString (?derStr ! 1)")
        case (Inl err)
        show ?thesis
          by (simp add: store_hex_fail [OF l m long Inl] trace_log Qlog)
      next
        case der: (Inr der)
        obtain t r w1 where chk: "checkDER sa der w = ((t, r), w1)"
          by (metis surj_pair)
        from checkDER_shape(1) [OF chk] obtain evs1 where
          tr1: "trace w1 = trace w @ evs1" and lk: "list_all is_lookup evs1" by auto
        from lk have q1: "list_all Q evs1"
          by (simp add: list_all_iff Qlookup)
        show ?thesis
        proof (cases r)
          case (Inl err)
          show ?thesis
            by (simp add: store_checkDER_fail [OF l m long der chk [unfolded Inl]] trace_log tr1 q1 Qlog)
        next
          case cert: (Inr cert)
          note chk' = chk [unfolded cert]
          from checkDER_shape(2) [OF chk cert] have
            parsed: "x509_ParseCertificate sa der = Inr cert" and tn: "t \<noteq> unknownOrphan" by auto
          show ?thesis
          proof (cases "length ?regStr \<le> 1")
            case True
            show ?thesis
              by (simp add: store_regID_missing [OF l m long der chk' True] trace_log tr1 q1 Qlog)
          next
            case rlong: False
            show ?thesis
            proof (cases "ParseInt (?regStr ! 1)")
              case (Inl err)
              show ?thesis
                by (simp add: store_regID_malformed [OF l m long der chk' rlong Inl] trace_log tr1 q1 Qlog)
            next
              case reg: (Inr regID)
              obtain ro w2 where ocsp: "generateOCSP sa der w1 = (ro, w2)"
                by (metis surj_pair)
              note tr2 = generateOCSP_trace [OF ocsp]
              show ?thesis
              proof (cases ro)
                case (Inl err)
                show ?thesis
                  by (simp add: store_ocsp_fail [OF l m long der chk' rlong reg ocsp [unfolded Inl]] trace_log tr1 tr2 q1 Qlog Qocsp)
              next
                case resp: (Inr response)
                note ocsp' = ocsp [unfolded resp]
                show ?thesis
                proof (cases t)
                  case unknownOrphan
                  then show ?thesis using tn by simp
                next
                  case certOrphan
                  obtain ri w3 where ins:
                    "AddCertificate sa der regID response (Add (NotBefore cert) bd) w2 = (ri, w3)"
                    by (metis surj_pair)
                  note tr3 = AddCertificate_trace [OF ins]
                  show ?thesis
                    by (cases ri) (simp_all add: store_cert_insert [OF l m long der chk' [unfolded certOrphan] rlong reg ocsp' ins] trace_log tr1 tr2 tr3 q1 Qlog Qocsp Qins [OF der parsed])
                next
                  case precertOrphan
                  obtain ri w3 where ins:
                    "AddPrecertificate sa \<lparr>Der = der, RegID = regID, Ocsp = response,
                        Issued = UnixNano (Add (NotBefore cert) bd)\<rparr> w2 = (ri, w3)"
                    by (metis surj_pair)
                  note tr3 = AddPrecertificate_trace [OF ins]
                  show ?thesis
                    by (cases ri) (simp_all add: store_precert_insert [OF l m long der chk' [unfolded precertOrphan] rlong reg ocsp' ins] trace_log tr1 tr2 tr3 q1 Qlog Qocsp Qins [OF der parsed])
                qed
              qed
            qed
          qed
        qed
      qed
    qed
  qed
qed

lemma checkDER_lookup:
  assumes "x509_ParseCertificate sa der = Inr cert"
    and "(if orphanTypeForCert (Some cert) = precertOrphan
          then sa_GetPrecertificate sa else sa_GetCertificate sa)
           (core_SerialToString sa (SerialNumber cert)) (remote w) = (r, s')"
  shows "checkDER sa der w =
     ((orphanTypeForCert (Some cert),
       (case r of
          None \<Rightarrow> Inl errAlreadyExists
        | Some e \<Rightarrow>
            if berrors_Is e NotFound then Inr cert
            else Inl (Errorf ''Existing %s lookup failed: %s''
                        [ArgTyp (orphanTypeForCert (Some cert)), ArgErr e]))),
      \<lparr>remote = s',
       trace = trace w @
         [(if orphanTypeForCert (Some cert) = precertOrphan
           then CallGetPrecertificate else CallGetCertificate)
            (core_SerialToString sa (SerialNumber cert))]\<rparr>)"
proof (cases "has_poison (Extensions cert)")
  case True
  then have "sa_GetPrecertificate sa (core_SerialToString sa (SerialNumber cert)) (remote w) = (r, s')"
    using assms(2) by simp
  from checkDER_precert [OF assms(1) True this] show ?thesis using True by (cases r) simp_all
next
  case False
  then have "sa_GetCertificate sa (core_SerialToString sa (SerialNumber cert)) (remote w) = (r, s')"
    using assms(2) by simp
  from checkDER_cert [OF assms(1) False this] show ?thesis using False by (cases r) simp_all
qed

subsection \<open>parse-der\<close>

lemma parse_der_usage:
  "derPath = [] \<or> regID = 0 \<Longrightarrow> parse_der sa bd derPath der regID w = (Usage, w)"
  by (simp add: parse_der_def)

lemma parse_der_check_fail:
  "derPath \<noteq> [] \<Longrightarrow> regID \<noteq> 0 \<Longrightarrow>
   checkDER sa der w = ((t, Inl err), w1) \<Longrightarrow>
   parse_der sa bd derPath der regID w =
     (FailOnError err ''Pre-AddCertificate checks failed'', w1)"
  by (simp add: parse_der_def)

lemma parse_der_ocsp_fail:
  "derPath \<noteq> [] \<Longrightarrow> regID \<noteq> 0 \<Longrightarrow>
   checkDER sa der w = ((t, Inr cert), w1) \<Longrightarrow> generateOCSP sa der w1 = (Inl err, w2) \<Longrightarrow>
   parse_der sa bd derPath der regID w = (FailOnError err ''Generating OCSP'', w2)"
  by (simp add: parse_der_def)

lemma parse_der_cert_insert:
  "derPath \<noteq> [] \<Longrightarrow> regID \<noteq> 0 \<Longrightarrow>
   checkDER sa der w = ((certOrphan, Inr cert), w1) \<Longrightarrow>
   generateOCSP sa der w1 = (Inr response, w2) \<Longrightarrow>
   AddCertificate sa der regID response (Add (NotBefore cert) bd) w2 = (r, w3) \<Longrightarrow>
   parse_der sa bd derPath der regID w =
     (case r of
        Some err \<Rightarrow> (FailOnError err ''Failed to add certificate to database'', w3)
      | None \<Rightarrow> (Completed, w3))"
  by (simp add: parse_der_def split: option.splits)

lemma parse_der_precert_insert:
  "derPath \<noteq> [] \<Longrightarrow> regID \<noteq> 0 \<Longrightarrow>
   checkDER sa der w = ((precertOrphan, Inr cert), w1) \<Longrightarrow>
   generateOCSP sa der w1 = (Inr response, w2) \<Longrightarrow>
   AddPrecertificate sa \<lparr>Der = der, RegID = regID, Ocsp = response,
      Issued = UnixNano (Add (NotBefore cert) bd)\<rparr> w2 = (r, w3) \<Longrightarrow>
   parse_der sa bd derPath der regID w =
     (case r of
        Some err \<Rightarrow> (FailOnError err ''Failed to add certificate to database'', w3)
      | None \<Rightarrow> (Completed, w3))"
  by (simp add: parse_der_def split: option.splits)

lemma parse_der_events:
  assumes Qlookup: "\<And>e. is_lookup e \<Longrightarrow> Q e"
    and Qocsp: "\<And>r. Q (CallGenerateOCSP r)"
    and Qins: "\<And>cert resp.
        x509_ParseCertificate sa der = Inr cert \<Longrightarrow>
        Q (CallAddCertificate der regID resp (Add (NotBefore cert) bd)) \<and>
        Q (CallAddPrecertificate \<lparr>Der = der, RegID = regID, Ocsp = resp,
             Issued = UnixNano (Add (NotBefore cert) bd)\<rparr>)"
  shows "\<exists>evs. trace (snd (parse_der sa bd derPath der regID w)) = trace w @ evs \<and> list_all Q evs"
proof (cases "derPath = [] \<or> regID = 0")
  case True
  then show ?thesis by (simp add: parse_der_usage)
next
  case False
  then have dp: "derPath \<noteq> []" and rn: "regID \<noteq> 0" by auto
  obtain t r w1 where chk: "checkDER sa der w = ((t, r), w1)"
    by (metis surj_pair)
  from checkDER_shape(1) [OF chk] obtain evs1 where
    tr1: "trace w1 = trace w @ evs1" and lk: "list_all is_lookup evs1" by auto
  from lk have q1: "list_all Q evs1"
    by (simp add: list_all_iff Qlookup)
  show ?thesis
  proof (cases r)
    case (Inl err)
    show ?thesis
      by (simp add: parse_der_check_fail [OF dp rn chk [unfolded Inl]] tr1 q1)
  next
    case cert: (Inr cert)
    note chk' = chk [unfolded cert]
    from checkDER_shape(2) [OF chk cert] have
      parsed: "x509_ParseCertificate sa der = Inr cert" and tn: "t \<noteq> unknownOrphan" by auto
    obtain ro w2 where ocsp: "generateOCSP sa der w1 = (ro, w2)"
      by (metis surj_pair)
    note tr2 = generateOCSP_trace [OF ocsp]
    show ?thesis
    proof (cases ro)
      case (Inl err)
      show ?thesis
        by (simp add: parse_der_ocsp_fail [OF dp rn chk' ocsp [unfolded Inl]] tr1 tr2 q1 Qocsp)
    next
      case resp: (Inr response)
      note ocsp' = ocsp [unfolded resp]
      show ?thesis
      proof (cases t)
        case unknownOrphan
        then show ?thesis using tn by simp
      next
        case certOrphan
        obtain ri w3 where ins:
          "AddCertificate sa der regID response (Add (NotBefore cert) bd) w2 = (ri, w3)"
          by (metis surj_pair)
        note tr3 = AddCertificate_trace [OF ins]
        show ?thesis
          by (cases ri)
             (simp_all add: parse_der_cert_insert [OF dp rn chk' [unfolded certOrphan] ocsp' ins]
                tr1 tr2 tr3 q1 Qocsp Qins [OF parsed])
      next
        case precertOrphan
        obtain ri w3 where ins:
          "AddPrecertificate sa \<lparr>Der = der, RegID = regID, Ocsp = response,
              Issued = UnixNano (Add (NotBefore cert) bd)\<rparr> w2 = (ri, w3)"
          by (metis surj_pair)
        note tr3 = AddPrecertificate_trace [OF ins]
        show ?thesis
          by (cases ri)
             (simp_all add: parse_der_precert_insert [OF dp rn chk' [unfolded precertOrphan] ocsp' ins]
                tr1 tr2 tr3 q1 Qocsp Qins [OF parsed])
      qed
    qed
  qed
qed

lemma Contains_nonempty: "Contains line (c # s) \<Longrightarrow> line \<noteq> []"
  by (cases line) auto

lemma store_already_exists:
  assumes "Contains line ''orphaning certificate'' \<or> Contains line ''orphaning precertificate''"
    and "Contains line ''cert=''"
    and "\<not> length (derOrphan_FindStringSubmatch line) \<le> 1"
    and "DecodeString (derOrphan_FindStringSubmatch line ! 1) = Inr der"
    and "x509_ParseCertificate sa der = Inr cert"
    and "(if orphanTypeForCert (Some cert) = precertOrphan
          then sa_GetPrecertificate sa else sa_GetCertificate sa)
           (core_SerialToString sa (SerialNumber cert)) (remote w) = (None, s')"
  shows "storeParsedLogLine sa bd line w =
     ((True, False, orphanTypeForCert (Some cert)),
      \<lparr>remote = s',
       trace = trace w @
         [(if orphanTypeForCert (Some cert) = precertOrphan
           then CallGetPrecertificate else CallGetCertificate)
            (core_SerialToString sa (SerialNumber cert)),
          Log Info ''%s, [%s]'' [ArgErr errAlreadyExists, ArgStr line]]\<rparr>)"
proof -
  note chk = checkDER_lookup [OF assms(5) assms(6), simplified]
  show ?thesis
    by (simp add: store_checkDER_fail [OF assms(1-4) chk] Infof_def logf_def)
qed

lemmas double_defs = memory_services_def double_parse_def double_serial_def double_lookup_def
  test_cert_def test_precert_def empty_world_def stored_world_def

section \<open>The existence check\<close>

text \<open>
  C4. A matched line of the log whose DER decodes and parses, and whose lookup (by the type
  of the certificate) answers that the serial is stored: the result is found = true,
  added = false with the type of the certificate; the run adds to the trace the lookup
  and one informational log call with \<open>errAlreadyExists\<close>, and nothing else: no OCSP
  request and no insert.
\<close>

theorem already_exists_short_circuits:
  assumes "Contains line ''orphaning certificate'' \<or> Contains line ''orphaning precertificate''"
    and "Contains line ''cert=''"
    and "\<not> length (derOrphan_FindStringSubmatch line) \<le> 1"
    and "DecodeString (derOrphan_FindStringSubmatch line ! 1) = Inr der"
    and "x509_ParseCertificate sa der = Inr cert"
    and "(if orphanTypeForCert (Some cert) = precertOrphan
          then sa_GetPrecertificate sa else sa_GetCertificate sa)
           (core_SerialToString sa (SerialNumber cert)) (remote w) = (None, s')"
  shows "storeParsedLogLine sa bd line w =
     ((True, False, orphanTypeForCert (Some cert)),
      \<lparr>remote = s',
       trace = trace w @
         [(if orphanTypeForCert (Some cert) = precertOrphan
           then CallGetPrecertificate else CallGetCertificate)
            (core_SerialToString sa (SerialNumber cert)),
          Log Info ''%s, [%s]'' [ArgErr errAlreadyExists, ArgStr line]]\<rparr>)"
  using assms by (rule store_already_exists)

theorem already_exists_short_circuits_witness:
  "storeParsedLogLine memory_services one_hour
      ''orphaning certificate cert=[ab] regID=[17]'' stored_world =
     ((True, False, certOrphan),
      \<lparr>remote = ([''01''], [''02'']),
       trace = [CallGetCertificate ''01'',
                Log Info ''%s, [%s]''
                  [ArgErr errAlreadyExists,
                   ArgStr ''orphaning certificate cert=[ab] regID=[17]'']]\<rparr>)"
proof -
  let ?line = "''orphaning certificate cert=[ab] regID=[17]''"
  have 1: "Contains ?line ''orphaning certificate'' \<or> Contains ?line ''orphaning precertificate''"
    by code_simp
  have 2: "Contains ?line ''cert=''" by code_simp
  have 3: "\<not> length (derOrphan_FindStringSubmatch ?line) \<le> 1" by code_simp
  have 4: "DecodeString (derOrphan_FindStringSubmatch ?line ! 1) = Inr [0xab]" by code_simp
  have 5: "x509_ParseCertificate memory_services [0xab] = Inr test_cert" by code_simp
  have 6: "(if orphanTypeForCert (Some test_cert) = precertOrphan
          then sa_GetPrecertificate memory_services else sa_GetCertificate memory_services)
           (core_SerialToString memory_services (SerialNumber test_cert)) (remote stored_world)
          = (None, ([''01''], [''02'']))"
    by code_simp
  from already_exists_short_circuits [OF 1 2 3 4 5 6, of one_hour]
  show ?thesis by (simp add: double_defs)
qed

section \<open>The issued date\<close>

lemma Date_values:
  "Date 2020 1 1 0 0 0 = \<lparr>sec = 1577836800, nsec = 0\<rparr>"
  "Date 2020 1 1 1 0 0 = \<lparr>sec = 1577840400, nsec = 0\<rparr>"
  "Date 2019 12 31 23 0 0 = \<lparr>sec = 1577833200, nsec = 0\<rparr>"
  by (simp_all add: Date_def days_from_civil_def)

lemma Add_one_hour:
  "Add (Date 2020 1 1 0 0 0) one_hour = Date 2020 1 1 1 0 0"
  by (simp add: Date_values Add_def one_hour_def trunc_div_def trunc_rem_def)

lemma UnixNano_one_hour:
  "UnixNano (Date 2020 1 1 1 0 0) = 1577840400000000000"
  by (simp add: Date_values UnixNano_def wrap_int64_def)

text \<open>
  C1, as the code has it. For a certificate with NotBefore = 2020-01-01T00:00:00Z and a
  backdate of one hour the issued date is 2020-01-01T01:00:00Z (the backdate is added),
  that is 1577840400000000000 nanoseconds since the epoch; in the log mode and in the
  single-file mode every insert of the run carries it, the certificate insert as the
  \<open>Time\<close>, the precertificate insert as the nanoseconds.
\<close>

theorem issued_date_adds_backdate:
  assumes "x509_ParseCertificate sa der = Inr cert"
    and "NotBefore cert = Date 2020 1 1 0 0 0"
  shows "Add (NotBefore cert) one_hour = Date 2020 1 1 1 0 0
     \<and> UnixNano (Add (NotBefore cert) one_hour) = 1577840400000000000
     \<and> (DecodeString (derOrphan_FindStringSubmatch line ! 1) = Inr der \<longrightarrow>
          list_all (issued_as (Date 2020 1 1 1 0 0) 1577840400000000000)
            (new_events w (snd (storeParsedLogLine sa one_hour line w))))
     \<and> list_all (issued_as (Date 2020 1 1 1 0 0) 1577840400000000000)
          (new_events w (snd (parse_der sa one_hour derPath der regID w)))"
proof -
  let ?Q = "issued_as (Date 2020 1 1 1 0 0) 1577840400000000000"
  have a: "Add (NotBefore cert) one_hour = Date 2020 1 1 1 0 0"
    using assms(2) Add_one_hour by simp
  have lookups: "\<And>e. is_lookup e \<Longrightarrow> ?Q e"
    by (case_tac e) simp_all
  have log: "list_all ?Q (new_events w (snd (storeParsedLogLine sa one_hour line w)))"
    if d: "DecodeString (derOrphan_FindStringSubmatch line ! 1) = Inr der"
  proof -
    have "\<exists>evs. trace (snd (storeParsedLogLine sa one_hour line w)) = trace w @ evs
            \<and> list_all ?Q evs"
    proof (rule store_events)
      fix der' cert' regID' resp
      assume "DecodeString (derOrphan_FindStringSubmatch line ! 1) = Inr der'"
        and p: "x509_ParseCertificate sa der' = Inr cert'"
      with d have "der' = der" by simp
      with p assms(1) have "cert' = cert" by simp
      then show "?Q (CallAddCertificate der' regID' resp (Add (NotBefore cert') one_hour)) \<and>
        ?Q (CallAddPrecertificate \<lparr>Der = der', RegID = regID', Ocsp = resp,
             Issued = UnixNano (Add (NotBefore cert') one_hour)\<rparr>)"
        using a UnixNano_one_hour by simp
    qed (simp_all add: lookups)
    then show ?thesis by (auto simp: new_events_def)
  qed
  have single: "list_all ?Q (new_events w (snd (parse_der sa one_hour derPath der regID w)))"
  proof -
    have "\<exists>evs. trace (snd (parse_der sa one_hour derPath der regID w)) = trace w @ evs
            \<and> list_all ?Q evs"
    proof (rule parse_der_events)
      fix cert' resp
      assume p: "x509_ParseCertificate sa der = Inr cert'"
      with assms(1) have "cert' = cert" by simp
      then show "?Q (CallAddCertificate der regID resp (Add (NotBefore cert') one_hour)) \<and>
        ?Q (CallAddPrecertificate \<lparr>Der = der, RegID = regID, Ocsp = resp,
             Issued = UnixNano (Add (NotBefore cert') one_hour)\<rparr>)"
        using a UnixNano_one_hour by simp
    qed (simp_all add: lookups)
    then show ?thesis by (auto simp: new_events_def)
  qed
  show ?thesis using a log single UnixNano_one_hour by simp
qed

theorem issued_date_adds_backdate_witness:
  "list_all (issued_as (Date 2020 1 1 1 0 0) 1577840400000000000)
     (new_events empty_world (snd (storeParsedLogLine memory_services one_hour
         ''orphaning certificate cert=[ab] regID=[17]'' empty_world)))
   \<and> list_all (issued_as (Date 2020 1 1 1 0 0) 1577840400000000000)
       (new_events empty_world
          (snd (parse_der memory_services one_hour ''orphan.der'' [0xab] 17 empty_world)))
   \<and> Add (NotBefore test_cert) one_hour = Date 2020 1 1 1 0 0"
proof -
  let ?line = "''orphaning certificate cert=[ab] regID=[17]''"
  have p: "x509_ParseCertificate memory_services [0xab] = Inr test_cert" by code_simp
  have n: "NotBefore test_cert = Date 2020 1 1 0 0 0" by code_simp
  have d: "DecodeString (derOrphan_FindStringSubmatch ?line ! 1) = Inr [0xab]" by code_simp
  from issued_date_adds_backdate [OF p n, of ?line empty_world "''orphan.der''" 17] d
  show ?thesis by simp
qed

text \<open>
  C1 as stated (the issued date is 2019-12-31T23:00:00Z) fails: the double's certificate
  and precertificate are valid from 2020-01-01T00:00:00Z, and with a backdate of one hour
  the inserts carry 2020-01-01T01:00:00Z and 1577840400000000000, not 23:00 of the day
  before (1577833200 seconds).
\<close>

theorem issued_date_counterexample:
  "NotBefore test_cert = Date 2020 1 1 0 0 0
   \<and> NotBefore test_precert = Date 2020 1 1 0 0 0
   \<and> one_hour = 3600 * 1000000000
   \<and> trace (snd (storeParsedLogLine memory_services one_hour
         ''orphaning certificate cert=[ab] regID=[17]'' empty_world)) =
       [CallGetCertificate ''01'',
        CallGenerateOCSP \<lparr>CertDER = [0xab], Status = ''good'', Reason = 0, RevokedAt = 0\<rparr>,
        CallAddCertificate [0xab] 17 [0x01] (Date 2020 1 1 1 0 0)]
   \<and> trace (snd (storeParsedLogLine memory_services one_hour
         ''orphaning precertificate cert=[cd] regID=[17]'' empty_world)) =
       [CallGetPrecertificate ''02'',
        CallGenerateOCSP \<lparr>CertDER = [0xcd], Status = ''good'', Reason = 0, RevokedAt = 0\<rparr>,
        CallAddPrecertificate
          \<lparr>Der = [0xcd], RegID = 17, Ocsp = [0x01], Issued = 1577840400000000000\<rparr>]
   \<and> Date 2020 1 1 1 0 0 \<noteq> Date 2019 12 31 23 0 0
   \<and> UnixNano (Date 2019 12 31 23 0 0) = 1577833200000000000"
  by code_simp

section \<open>Reaching the insert\<close>

lemma checkDER_not_found:
  assumes "x509_ParseCertificate sa der = Inr cert"
    and "(if orphanTypeForCert (Some cert) = precertOrphan
          then sa_GetPrecertificate sa else sa_GetCertificate sa)
           (core_SerialToString sa (SerialNumber cert)) (remote w) = (Some e, s1)"
    and "berrors_Is e NotFound"
  shows "checkDER sa der w =
     ((orphanTypeForCert (Some cert), Inr cert),
      \<lparr>remote = s1,
       trace = trace w @
         [(if orphanTypeForCert (Some cert) = precertOrphan
           then CallGetPrecertificate else CallGetCertificate)
            (core_SerialToString sa (SerialNumber cert))]\<rparr>)"
  using checkDER_lookup [OF assms(1) assms(2)] assms(3) by simp

text \<open>The run of a line that reaches the insert.\<close>

lemma store_reaches_insert:
  assumes l: "Contains line ''orphaning certificate'' \<or> Contains line ''orphaning precertificate''"
    and m: "Contains line ''cert=''"
    and long: "\<not> length (derOrphan_FindStringSubmatch line) \<le> 1"
    and dec: "DecodeString (derOrphan_FindStringSubmatch line ! 1) = Inr der"
    and parse: "x509_ParseCertificate sa der = Inr cert"
    and lk: "(if orphanTypeForCert (Some cert) = precertOrphan
          then sa_GetPrecertificate sa else sa_GetCertificate sa)
           (core_SerialToString sa (SerialNumber cert)) (remote w) = (Some e, s1)"
    and nf: "berrors_Is e NotFound"
    and rlong: "\<not> length (regOrphan_FindStringSubmatch line) \<le> 1"
    and reg: "ParseInt (regOrphan_FindStringSubmatch line ! 1) = Inr regID"
    and oc: "ca_GenerateOCSP sa \<lparr>CertDER = der, Status = ''good'', Reason = 0, RevokedAt = 0\<rparr> s1
               = (Inr response, s2)"
    and ins: "(if orphanTypeForCert (Some cert) = precertOrphan
           then sa_AddPrecertificate sa
                  \<lparr>Der = der, RegID = regID, Ocsp = response,
                   Issued = UnixNano (Add (NotBefore cert) bd)\<rparr>
           else sa_AddCertificate sa der regID response (Add (NotBefore cert) bd)) s2 = (r, s3)"
  shows "storeParsedLogLine sa bd line w =
     ((True, r = None, orphanTypeForCert (Some cert)),
      \<lparr>remote = s3,
       trace = trace w @
         [(if orphanTypeForCert (Some cert) = precertOrphan
           then CallGetPrecertificate else CallGetCertificate)
            (core_SerialToString sa (SerialNumber cert)),
          CallGenerateOCSP \<lparr>CertDER = der, Status = ''good'', Reason = 0, RevokedAt = 0\<rparr>,
          (if orphanTypeForCert (Some cert) = precertOrphan
           then CallAddPrecertificate
                  \<lparr>Der = der, RegID = regID, Ocsp = response,
                   Issued = UnixNano (Add (NotBefore cert) bd)\<rparr>
           else CallAddCertificate der regID response (Add (NotBefore cert) bd))] @
         (case r of
            None \<Rightarrow> []
          | Some err \<Rightarrow>
              [Log AuditErr ''Failed to store certificate: %s, [%s]''
                 [ArgErr err, ArgStr line]])\<rparr>)"
proof -
  let ?req = "\<lparr>CertDER = der, Status = ''good'', Reason = 0, RevokedAt = 0\<rparr>"
  define w1 where "w1 = \<lparr>remote = s1, trace = trace w @
      [(if orphanTypeForCert (Some cert) = precertOrphan
        then CallGetPrecertificate else CallGetCertificate)
         (core_SerialToString sa (SerialNumber cert))]\<rparr>"
  define w2 where "w2 = \<lparr>remote = s2, trace = trace w1 @ [CallGenerateOCSP ?req]\<rparr>"
  have chk: "checkDER sa der w = ((orphanTypeForCert (Some cert), Inr cert), w1)"
    unfolding w1_def by (rule checkDER_not_found [OF parse lk nf])
  have "ca_GenerateOCSP sa ?req (remote w1) = (Inr response, s2)"
    using oc by (simp add: w1_def)
  from generateOCSP_eq [OF this]
  have ocsp: "generateOCSP sa der w1 = (Inr response, w2)"
    by (simp add: w2_def)
  show ?thesis
  proof (cases "has_poison (Extensions cert)")
    case True
    then have t: "orphanTypeForCert (Some cert) = precertOrphan" by simp
    let ?areq = "\<lparr>Der = der, RegID = regID, Ocsp = response,
                   Issued = UnixNano (Add (NotBefore cert) bd)\<rparr>"
    define w3 where "w3 = \<lparr>remote = s3, trace = trace w2 @ [CallAddPrecertificate ?areq]\<rparr>"
    have "sa_AddPrecertificate sa ?areq (remote w2) = (r, s3)" using ins t by (simp add: w2_def)
    then have add: "AddPrecertificate sa ?areq w2 = (r, w3)"
      by (simp add: AddPrecertificate_def called_def w3_def)
    have "storeParsedLogLine sa bd line w =
       (case r of
          Some err \<Rightarrow>
            ((True, False, precertOrphan),
             AuditErrf ''Failed to store certificate: %s, [%s]'' [ArgErr err, ArgStr line] w3)
        | None \<Rightarrow> ((True, True, precertOrphan), w3))"
      by (rule store_precert_insert [OF l m long dec chk [unfolded t] rlong reg ocsp add])
    then show ?thesis
      using True by (cases r) (simp_all add: AuditErrf_def logf_def w1_def w2_def w3_def)
  next
    case False
    then have t: "orphanTypeForCert (Some cert) = certOrphan" by simp
    define w3 where "w3 = \<lparr>remote = s3, trace = trace w2 @
        [CallAddCertificate der regID response (Add (NotBefore cert) bd)]\<rparr>"
    have "sa_AddCertificate sa der regID response (Add (NotBefore cert) bd) (remote w2) = (r, s3)"
      using ins t by (simp add: w2_def)
    then have add: "AddCertificate sa der regID response (Add (NotBefore cert) bd) w2 = (r, w3)"
      by (simp add: AddCertificate_def called_def w3_def)
    have "storeParsedLogLine sa bd line w =
       (case r of
          Some err \<Rightarrow>
            ((True, False, certOrphan),
             AuditErrf ''Failed to store certificate: %s, [%s]'' [ArgErr err, ArgStr line] w3)
        | None \<Rightarrow> ((True, True, certOrphan), w3))"
      by (rule store_cert_insert [OF l m long dec chk [unfolded t] rlong reg ocsp add])
    then show ?thesis
      using False by (cases r) (simp_all add: AuditErrf_def logf_def w1_def w2_def w3_def)
  qed
qed

lemma UnixNano_Add:
  "UnixNano (Add t d) = wrap_int64 (sec t * 1000000000 + nsec t + d)"
  by (simp add: UnixNano_def Add_def Let_def trunc_rem_def algebra_simps)

lemma trunc_rem_range: "\<bar>trunc_rem d 1000000000\<bar> < 1000000000"
proof (cases "d \<ge> 0")
  case True
  then have "trunc_rem d 1000000000 = d mod 1000000000"
    by (cases "d = 0") (simp_all add: trunc_rem_def trunc_div_def minus_mult_div_eq_mod)
  then show ?thesis by simp
next
  case False
  then have "trunc_rem d 1000000000 = - ((- d) mod 1000000000)"
    by (simp add: trunc_rem_def trunc_div_def sgn_if abs_if minus_mult_div_eq_mod [symmetric] algebra_simps)
  then show ?thesis by simp
qed

lemma Add_nsec_range:
  assumes "0 \<le> nsec t" "nsec t < 1000000000"
  shows "0 \<le> nsec (Add t d) \<and> nsec (Add t d) < 1000000000"
  using assms trunc_rem_range [of d] by (auto simp: Add_def Let_def)

lemma line_step_found_not_added:
  assumes "line \<noteq> []"
    and "storeParsedLogLine sa bd line w = ((True, False, t), w1)"
    and "t \<noteq> unknownOrphan"
  shows "line_step sa bd line (c, w) =
     ((if t = precertOrphan
       then c\<lparr>precertOrphansFound := precertOrphansFound c + 1\<rparr>
       else c\<lparr>certOrphansFound := certOrphansFound c + 1\<rparr>), w1)"
  using assms by (cases t) (simp_all add: line_step_def)

section \<open>The precertificate insert\<close>

text \<open>
  C5, as the code has it. A matched line whose DER decodes and parses to a certificate
  with the poison extension, with a registration id that parses, a precertificate lookup
  that answers not-found and an OCSP request that succeeds: the run is found, of type
  precertificate, and makes exactly one insert, the precertificate insert whose issued
  field is \<^verbatim>\<open>UnixNano\<close> of NotBefore plus the backdate, computed for that insert only;
  that is the nanoseconds of NotBefore plus the backdate, wrapped to int64.
\<close>

theorem precertificate_insert_once:
  assumes "Contains line ''orphaning certificate'' \<or> Contains line ''orphaning precertificate''"
    and "Contains line ''cert=''"
    and "\<not> length (derOrphan_FindStringSubmatch line) \<le> 1"
    and "DecodeString (derOrphan_FindStringSubmatch line ! 1) = Inr der"
    and "x509_ParseCertificate sa der = Inr cert"
    and "has_poison (Extensions cert)"
    and "sa_GetPrecertificate sa (core_SerialToString sa (SerialNumber cert)) (remote w)
           = (Some e, s1)"
    and "berrors_Is e NotFound"
    and "\<not> length (regOrphan_FindStringSubmatch line) \<le> 1"
    and "ParseInt (regOrphan_FindStringSubmatch line ! 1) = Inr regID"
    and "ca_GenerateOCSP sa \<lparr>CertDER = der, Status = ''good'', Reason = 0, RevokedAt = 0\<rparr> s1
           = (Inr response, s2)"
  shows "filter is_insert (new_events w (snd (storeParsedLogLine sa bd line w))) =
       [CallAddPrecertificate
          \<lparr>Der = der, RegID = regID, Ocsp = response,
           Issued = UnixNano (Add (NotBefore cert) bd)\<rparr>]
     \<and> UnixNano (Add (NotBefore cert) bd) =
         wrap_int64 (sec (NotBefore cert) * 1000000000 + nsec (NotBefore cert) + bd)
     \<and> fst (fst (storeParsedLogLine sa bd line w))
     \<and> snd (snd (fst (storeParsedLogLine sa bd line w))) = precertOrphan"
proof -
  let ?areq = "\<lparr>Der = der, RegID = regID, Ocsp = response,
                Issued = UnixNano (Add (NotBefore cert) bd)\<rparr>"
  have t: "orphanTypeForCert (Some cert) = precertOrphan"
    using assms(6) by simp
  obtain r s3 where "sa_AddPrecertificate sa ?areq s2 = (r, s3)"
    by force
  then have ins: "(if orphanTypeForCert (Some cert) = precertOrphan
           then sa_AddPrecertificate sa ?areq
           else sa_AddCertificate sa der regID response (Add (NotBefore cert) bd)) s2 = (r, s3)"
    using t by simp
  have lk: "(if orphanTypeForCert (Some cert) = precertOrphan
          then sa_GetPrecertificate sa else sa_GetCertificate sa)
           (core_SerialToString sa (SerialNumber cert)) (remote w) = (Some e, s1)"
    using assms(7) t by simp
  note run = store_reaches_insert [OF assms(1-5) lk assms(8-11) ins]
  show ?thesis
    using assms(6) by (cases r) (simp_all add: run new_events_def UnixNano_Add)
qed

theorem precertificate_insert_once_witness:
  "filter is_insert (new_events empty_world (snd (storeParsedLogLine memory_services one_hour
       ''orphaning precertificate cert=[cd] regID=[17]'' empty_world))) =
     [CallAddPrecertificate
        \<lparr>Der = [0xcd], RegID = 17, Ocsp = [0x01],
         Issued = UnixNano (Add (NotBefore test_precert) one_hour)\<rparr>]
   \<and> UnixNano (Add (NotBefore test_precert) one_hour) = 1577840400000000000"
proof -
  let ?line = "''orphaning precertificate cert=[cd] regID=[17]''"
  have 1: "Contains ?line ''orphaning certificate'' \<or> Contains ?line ''orphaning precertificate''"
    by code_simp
  have 2: "Contains ?line ''cert=''" by code_simp
  have 3: "\<not> length (derOrphan_FindStringSubmatch ?line) \<le> 1" by code_simp
  have 4: "DecodeString (derOrphan_FindStringSubmatch ?line ! 1) = Inr [0xcd]" by code_simp
  have 5: "x509_ParseCertificate memory_services [0xcd] = Inr test_precert" by code_simp
  have 6: "has_poison (Extensions test_precert)" by code_simp
  have 7: "sa_GetPrecertificate memory_services
             (core_SerialToString memory_services (SerialNumber test_precert))
             (remote empty_world)
           = (Some (BoulderError NotFound ''no such serial''), ([], []))"
    by code_simp
  have 8: "berrors_Is (BoulderError NotFound ''no such serial'') NotFound" by simp
  have 9: "\<not> length (regOrphan_FindStringSubmatch ?line) \<le> 1" by code_simp
  have 10: "ParseInt (regOrphan_FindStringSubmatch ?line ! 1) = Inr 17" by code_simp
  have 11: "ca_GenerateOCSP memory_services
              \<lparr>CertDER = [0xcd], Status = ''good'', Reason = 0, RevokedAt = 0\<rparr> ([], [])
            = (Inr [0x01], ([], []))"
    by code_simp
  have v: "wrap_int64 (sec (NotBefore test_precert) * 1000000000 + nsec (NotBefore test_precert)
             + one_hour) = 1577840400000000000"
    by code_simp
  from precertificate_insert_once [OF 1 2 3 4 5 6 7 8 9 10 11, of one_hour] v
  show ?thesis by simp
qed

text \<open>
  C5 as stated fails when the OCSP generator is down: the line carries a valid
  precertificate and a well-formed registration id, the lookup answers not-found, and
  the run makes no insert at all.
\<close>

theorem precertificate_insert_counterexample:
  "x509_ParseCertificate ocsp_down_services [0xcd] = Inr test_precert
   \<and> has_poison (Extensions test_precert)
   \<and> DecodeString (derOrphan_FindStringSubmatch
         ''orphaning precertificate cert=[cd] regID=[17]'' ! 1) = Inr [0xcd]
   \<and> ParseInt (regOrphan_FindStringSubmatch
         ''orphaning precertificate cert=[cd] regID=[17]'' ! 1) = Inr 17
   \<and> sa_GetPrecertificate ocsp_down_services ''02'' (remote empty_world) =
        (Some (BoulderError NotFound ''no such serial''), ([], []))
   \<and> storeParsedLogLine ocsp_down_services one_hour
        ''orphaning precertificate cert=[cd] regID=[17]'' empty_world =
       ((True, False, precertOrphan),
        \<lparr>remote = ([], []),
         trace =
           [CallGetPrecertificate ''02'',
            CallGenerateOCSP \<lparr>CertDER = [0xcd], Status = ''good'', Reason = 0, RevokedAt = 0\<rparr>,
            Log AuditErr ''Couldn't generate OCSP: %s, [%s]''
              [ArgErr (RemoteError ''unavailable''),
               ArgStr ''orphaning precertificate cert=[cd] regID=[17]'']]\<rparr>)
   \<and> filter is_insert (trace (snd (storeParsedLogLine ocsp_down_services one_hour
        ''orphaning precertificate cert=[cd] regID=[17]'' empty_world))) = []"
  by code_simp

section \<open>A failing insert\<close>

text \<open>
  C3, as the code has it. A line that reaches the insert, whose insert fails with any
  error \<open>err\<close>, the uniqueness violation \<open>BoulderError Duplicate\<close> included: the run is
  found = true, added = false; after the lookup, the OCSP request and the insert it logs
  the error at the audit-error level and nothing at the informational level; the loop
  over the lines counts the line as found, not as added, and goes on with the next line.
\<close>

theorem insert_failure_is_audit_error:
  assumes "Contains line ''orphaning certificate'' \<or> Contains line ''orphaning precertificate''"
    and "Contains line ''cert=''"
    and "\<not> length (derOrphan_FindStringSubmatch line) \<le> 1"
    and "DecodeString (derOrphan_FindStringSubmatch line ! 1) = Inr der"
    and "x509_ParseCertificate sa der = Inr cert"
    and "(if orphanTypeForCert (Some cert) = precertOrphan
          then sa_GetPrecertificate sa else sa_GetCertificate sa)
           (core_SerialToString sa (SerialNumber cert)) (remote w) = (Some e, s1)"
    and "berrors_Is e NotFound"
    and "\<not> length (regOrphan_FindStringSubmatch line) \<le> 1"
    and "ParseInt (regOrphan_FindStringSubmatch line ! 1) = Inr regID"
    and "ca_GenerateOCSP sa \<lparr>CertDER = der, Status = ''good'', Reason = 0, RevokedAt = 0\<rparr> s1
           = (Inr response, s2)"
    and "(if orphanTypeForCert (Some cert) = precertOrphan
           then sa_AddPrecertificate sa
                  \<lparr>Der = der, RegID = regID, Ocsp = response,
                   Issued = UnixNano (Add (NotBefore cert) bd)\<rparr>
           else sa_AddCertificate sa der regID response (Add (NotBefore cert) bd)) s2
         = (Some err, s3)"
  shows "storeParsedLogLine sa bd line w =
       ((True, False, orphanTypeForCert (Some cert)),
        \<lparr>remote = s3,
         trace = trace w @
           [(if orphanTypeForCert (Some cert) = precertOrphan
             then CallGetPrecertificate else CallGetCertificate)
              (core_SerialToString sa (SerialNumber cert)),
            CallGenerateOCSP \<lparr>CertDER = der, Status = ''good'', Reason = 0, RevokedAt = 0\<rparr>,
            (if orphanTypeForCert (Some cert) = precertOrphan
             then CallAddPrecertificate
                    \<lparr>Der = der, RegID = regID, Ocsp = response,
                     Issued = UnixNano (Add (NotBefore cert) bd)\<rparr>
             else CallAddCertificate der regID response (Add (NotBefore cert) bd)),
            Log AuditErr ''Failed to store certificate: %s, [%s]''
              [ArgErr err, ArgStr line]]\<rparr>)
     \<and> lines_loop sa bd (line # rest) (c, w) =
         lines_loop sa bd rest
           ((if orphanTypeForCert (Some cert) = precertOrphan
             then c\<lparr>precertOrphansFound := precertOrphansFound c + 1\<rparr>
             else c\<lparr>certOrphansFound := certOrphansFound c + 1\<rparr>),
            snd (storeParsedLogLine sa bd line w))"
proof -
  let ?W = "\<lparr>remote = s3,
         trace = trace w @
           [(if orphanTypeForCert (Some cert) = precertOrphan
             then CallGetPrecertificate else CallGetCertificate)
              (core_SerialToString sa (SerialNumber cert)),
            CallGenerateOCSP \<lparr>CertDER = der, Status = ''good'', Reason = 0, RevokedAt = 0\<rparr>,
            (if orphanTypeForCert (Some cert) = precertOrphan
             then CallAddPrecertificate
                    \<lparr>Der = der, RegID = regID, Ocsp = response,
                     Issued = UnixNano (Add (NotBefore cert) bd)\<rparr>
             else CallAddCertificate der regID response (Add (NotBefore cert) bd)),
            Log AuditErr ''Failed to store certificate: %s, [%s]''
              [ArgErr err, ArgStr line]]\<rparr>"
  have run: "storeParsedLogLine sa bd line w = ((True, False, orphanTypeForCert (Some cert)), ?W)"
    using store_reaches_insert [OF assms] by simp
  have ne: "line \<noteq> []" using assms(2) by (rule Contains_nonempty)
  have tn: "orphanTypeForCert (Some cert) \<noteq> unknownOrphan" by simp
  have "line_step sa bd line (c, w) =
     ((if orphanTypeForCert (Some cert) = precertOrphan
       then c\<lparr>precertOrphansFound := precertOrphansFound c + 1\<rparr>
       else c\<lparr>certOrphansFound := certOrphansFound c + 1\<rparr>), ?W)"
    by (rule line_step_found_not_added [OF ne run tn])
  then show ?thesis using run by simp
qed

theorem insert_failure_is_audit_error_witness:
  "storeParsedLogLine racing_services one_hour
      ''orphaning certificate cert=[ab] regID=[17]'' empty_world =
     ((True, False, certOrphan),
      \<lparr>remote = ([], []),
       trace =
         [CallGetCertificate ''01'',
          CallGenerateOCSP \<lparr>CertDER = [0xab], Status = ''good'', Reason = 0, RevokedAt = 0\<rparr>,
          CallAddCertificate [0xab] 17 [0x01] (Add (NotBefore test_cert) one_hour),
          Log AuditErr ''Failed to store certificate: %s, [%s]''
            [ArgErr (BoulderError Duplicate ''duplicate serial''),
             ArgStr ''orphaning certificate cert=[ab] regID=[17]'']]\<rparr>)"
proof -
  let ?line = "''orphaning certificate cert=[ab] regID=[17]''"
  have 1: "Contains ?line ''orphaning certificate'' \<or> Contains ?line ''orphaning precertificate''"
    by code_simp
  have 2: "Contains ?line ''cert=''" by code_simp
  have 3: "\<not> length (derOrphan_FindStringSubmatch ?line) \<le> 1" by code_simp
  have 4: "DecodeString (derOrphan_FindStringSubmatch ?line ! 1) = Inr [0xab]" by code_simp
  have 5: "x509_ParseCertificate racing_services [0xab] = Inr test_cert" by code_simp
  have 6: "(if orphanTypeForCert (Some test_cert) = precertOrphan
          then sa_GetPrecertificate racing_services else sa_GetCertificate racing_services)
           (core_SerialToString racing_services (SerialNumber test_cert)) (remote empty_world)
          = (Some (BoulderError NotFound ''no such serial''), ([], []))"
    by code_simp
  have 7: "berrors_Is (BoulderError NotFound ''no such serial'') NotFound" by simp
  have 8: "\<not> length (regOrphan_FindStringSubmatch ?line) \<le> 1" by code_simp
  have 9: "ParseInt (regOrphan_FindStringSubmatch ?line ! 1) = Inr 17" by code_simp
  have 10: "ca_GenerateOCSP racing_services
              \<lparr>CertDER = [0xab], Status = ''good'', Reason = 0, RevokedAt = 0\<rparr> ([], [])
            = (Inr [0x01], ([], []))"
    by code_simp
  have 11: "(if orphanTypeForCert (Some test_cert) = precertOrphan
           then sa_AddPrecertificate racing_services
                  \<lparr>Der = [0xab], RegID = 17, Ocsp = [0x01],
                   Issued = UnixNano (Add (NotBefore test_cert) one_hour)\<rparr>
           else sa_AddCertificate racing_services [0xab] 17 [0x01]
                  (Add (NotBefore test_cert) one_hour)) ([], [])
         = (Some (BoulderError Duplicate ''duplicate serial''), ([], []))"
    by code_simp
  have t: "orphanTypeForCert (Some test_cert) = certOrphan" by code_simp
  have s: "core_SerialToString racing_services (SerialNumber test_cert) = ''01''" by code_simp
  have w: "trace empty_world = []" by code_simp
  from insert_failure_is_audit_error [OF 1 2 3 4 5 6 7 8 9 10 11, of "[]" no_orphans]
  show ?thesis unfolding t s w by simp
qed

text \<open>
  C3 as stated fails: with a storage that answers not-found to the lookup and a
  uniqueness violation to the insert, the run logs the failure at the audit-error level,
  and the trace has no informational log call.
\<close>

theorem insert_duplicate_counterexample:
  "sa_AddCertificate racing_services [0xab] 17 [0x01] (Date 2020 1 1 1 0 0) ([], []) =
     (Some (BoulderError Duplicate ''duplicate serial''), ([], []))
   \<and> storeParsedLogLine racing_services one_hour
        ''orphaning certificate cert=[ab] regID=[17]'' empty_world =
       ((True, False, certOrphan),
        \<lparr>remote = ([], []),
         trace =
           [CallGetCertificate ''01'',
            CallGenerateOCSP \<lparr>CertDER = [0xab], Status = ''good'', Reason = 0, RevokedAt = 0\<rparr>,
            CallAddCertificate [0xab] 17 [0x01] (Date 2020 1 1 1 0 0),
            Log AuditErr ''Failed to store certificate: %s, [%s]''
              [ArgErr (BoulderError Duplicate ''duplicate serial''),
               ArgStr ''orphaning certificate cert=[ab] regID=[17]'']]\<rparr>)
   \<and> AuditErr \<noteq> Info"
  by code_simp

section \<open>A stored serial, by mode\<close>

text \<open>
  C8, as the code has it. When the lookup of the existence check answers that the serial
  is stored: the single-file mode, run with a path of the DER file and a registration id
  other than 0, ends the process through \<^verbatim>\<open>FailOnError\<close> with \<open>errAlreadyExists\<close> and
  the message of the check, after the lookup alone (with an empty path or the
  registration id 0 it has ended before, in \<^verbatim>\<open>usage()\<close>, without any call); the loop of
  the log mode logs at the informational level, counts the line as found and not as
  added, and goes on with the next line. Neither mode requests an OCSP response or
  inserts.
\<close>

theorem already_exists_by_mode:
  assumes "x509_ParseCertificate sa der = Inr cert"
    and "(if orphanTypeForCert (Some cert) = precertOrphan
          then sa_GetPrecertificate sa else sa_GetCertificate sa)
           (core_SerialToString sa (SerialNumber cert)) (remote w) = (None, s')"
  shows "parse_der sa bd derPath der regID w =
       (if derPath = [] \<or> regID = 0 then (Usage, w)
        else
          (FailOnError errAlreadyExists ''Pre-AddCertificate checks failed'',
           \<lparr>remote = s',
            trace = trace w @
              [(if orphanTypeForCert (Some cert) = precertOrphan
                then CallGetPrecertificate else CallGetCertificate)
                 (core_SerialToString sa (SerialNumber cert))]\<rparr>))
     \<and> ((Contains line ''orphaning certificate'' \<or> Contains line ''orphaning precertificate'')
          \<and> Contains line ''cert=''
          \<and> \<not> length (derOrphan_FindStringSubmatch line) \<le> 1
          \<and> DecodeString (derOrphan_FindStringSubmatch line ! 1) = Inr der
        \<longrightarrow> lines_loop sa bd (line # rest) (c, w) =
             lines_loop sa bd rest
               ((if orphanTypeForCert (Some cert) = precertOrphan
                 then c\<lparr>precertOrphansFound := precertOrphansFound c + 1\<rparr>
                 else c\<lparr>certOrphansFound := certOrphansFound c + 1\<rparr>),
                \<lparr>remote = s',
                 trace = trace w @
                   [(if orphanTypeForCert (Some cert) = precertOrphan
                     then CallGetPrecertificate else CallGetCertificate)
                      (core_SerialToString sa (SerialNumber cert)),
                    Log Info ''%s, [%s]'' [ArgErr errAlreadyExists, ArgStr line]]\<rparr>))"
proof
  note chk = checkDER_lookup [OF assms, simplified]
  show "parse_der sa bd derPath der regID w =
       (if derPath = [] \<or> regID = 0 then (Usage, w)
        else
          (FailOnError errAlreadyExists ''Pre-AddCertificate checks failed'',
           \<lparr>remote = s',
            trace = trace w @
              [(if orphanTypeForCert (Some cert) = precertOrphan
                then CallGetPrecertificate else CallGetCertificate)
                 (core_SerialToString sa (SerialNumber cert))]\<rparr>))"
  proof (cases "derPath = [] \<or> regID = 0")
    case True
    then show ?thesis by (simp add: parse_der_usage)
  next
    case False
    then have dp: "derPath \<noteq> []" and rn: "regID \<noteq> 0" by auto
    show ?thesis using False by (simp add: parse_der_check_fail [OF dp rn chk])
  qed
next
  let ?W = "\<lparr>remote = s',
      trace = trace w @
        [(if orphanTypeForCert (Some cert) = precertOrphan
          then CallGetPrecertificate else CallGetCertificate)
           (core_SerialToString sa (SerialNumber cert)),
         Log Info ''%s, [%s]'' [ArgErr errAlreadyExists, ArgStr line]]\<rparr>"
  let ?c' = "(if orphanTypeForCert (Some cert) = precertOrphan
                 then c\<lparr>precertOrphansFound := precertOrphansFound c + 1\<rparr>
                 else c\<lparr>certOrphansFound := certOrphansFound c + 1\<rparr>)"
  show "(Contains line ''orphaning certificate'' \<or> Contains line ''orphaning precertificate'')
          \<and> Contains line ''cert=''
          \<and> \<not> length (derOrphan_FindStringSubmatch line) \<le> 1
          \<and> DecodeString (derOrphan_FindStringSubmatch line ! 1) = Inr der
        \<longrightarrow> lines_loop sa bd (line # rest) (c, w) = lines_loop sa bd rest (?c', ?W)"
  proof
    assume h: "(Contains line ''orphaning certificate'' \<or> Contains line ''orphaning precertificate'')
          \<and> Contains line ''cert=''
          \<and> \<not> length (derOrphan_FindStringSubmatch line) \<le> 1
          \<and> DecodeString (derOrphan_FindStringSubmatch line ! 1) = Inr der"
    then have l: "Contains line ''orphaning certificate'' \<or> Contains line ''orphaning precertificate''"
      and m: "Contains line ''cert=''"
      and long: "\<not> length (derOrphan_FindStringSubmatch line) \<le> 1"
      and dec: "DecodeString (derOrphan_FindStringSubmatch line ! 1) = Inr der"
      by auto
    have run: "storeParsedLogLine sa bd line w =
        ((True, False, orphanTypeForCert (Some cert)), ?W)"
      by (rule store_already_exists [OF l m long dec assms])
    have ne: "line \<noteq> []" using m by (rule Contains_nonempty)
    have tn: "orphanTypeForCert (Some cert) \<noteq> unknownOrphan" by simp
    have "line_step sa bd line (c, w) = (?c', ?W)"
      by (rule line_step_found_not_added [OF ne run tn])
    then show "lines_loop sa bd (line # rest) (c, w) = lines_loop sa bd rest (?c', ?W)"
      by simp
  qed
qed

theorem already_exists_by_mode_witness:
  "parse_der memory_services one_hour ''orphan.der'' [0xab] 17 stored_world =
     (FailOnError errAlreadyExists ''Pre-AddCertificate checks failed'',
      \<lparr>remote = ([''01''], [''02'']), trace = [CallGetCertificate ''01'']\<rparr>)
   \<and> parse_der memory_services one_hour ''orphan.der'' [0xab] 0 stored_world =
       (Usage, stored_world)
   \<and> lines_loop memory_services one_hour
        [''orphaning certificate cert=[ab] regID=[17]''] (no_orphans, stored_world) =
       (\<lparr>certOrphansFound = 1, certOrphansAdded = 0,
         precertOrphansFound = 0, precertOrphansAdded = 0\<rparr>,
        \<lparr>remote = ([''01''], [''02'']),
         trace = [CallGetCertificate ''01'',
                  Log Info ''%s, [%s]''
                    [ArgErr errAlreadyExists,
                     ArgStr ''orphaning certificate cert=[ab] regID=[17]'']]\<rparr>)"
proof -
  let ?line = "''orphaning certificate cert=[ab] regID=[17]''"
  have p: "x509_ParseCertificate memory_services [0xab] = Inr test_cert" by code_simp
  have e: "(if orphanTypeForCert (Some test_cert) = precertOrphan
          then sa_GetPrecertificate memory_services else sa_GetCertificate memory_services)
           (core_SerialToString memory_services (SerialNumber test_cert)) (remote stored_world)
          = (None, ([''01''], [''02'']))"
    by code_simp
  have h: "(Contains ?line ''orphaning certificate'' \<or> Contains ?line ''orphaning precertificate'')
          \<and> Contains ?line ''cert=''
          \<and> \<not> length (derOrphan_FindStringSubmatch ?line) \<le> 1
          \<and> DecodeString (derOrphan_FindStringSubmatch ?line ! 1) = Inr [0xab]"
    by code_simp
  have t: "orphanTypeForCert (Some test_cert) = certOrphan" by code_simp
  have s: "core_SerialToString memory_services (SerialNumber test_cert) = ''01''" by code_simp
  have w: "trace stored_world = []" by code_simp
  from already_exists_by_mode [OF p e, of one_hour "''orphan.der''" 17 ?line "[]" no_orphans]
       already_exists_by_mode [OF p e, of one_hour "''orphan.der''" 0 ?line "[]" no_orphans] h
  show ?thesis unfolding t s w by (simp add: no_orphans_def)
qed

text \<open>
  C8 as stated fails in the single-file mode: run with a path and the registration id 17
  for a certificate whose serial is stored, it ends in \<^verbatim>\<open>FailOnError\<close>, which ends the
  process.
\<close>

theorem already_exists_single_file_counterexample:
  "sa_GetCertificate memory_services ''01'' (remote stored_world) = (None, ([''01''], [''02'']))
   \<and> parse_der memory_services one_hour ''orphan.der'' [0xab] 17 stored_world =
       (FailOnError errAlreadyExists ''Pre-AddCertificate checks failed'',
        \<lparr>remote = ([''01''], [''02'']), trace = [CallGetCertificate ''01'']\<rparr>)
   \<and> FailOnError errAlreadyExists ''Pre-AddCertificate checks failed'' \<noteq> Completed"
  by code_simp

section \<open>The registration id\<close>

lemma lookups_only:
  "list_all is_lookup evs \<Longrightarrow>
   filter is_ocsp evs = [] \<and> filter is_insert evs = [] \<and> filter is_log evs = []
   \<and> filter is_lookup evs = evs"
proof (induction evs)
  case Nil
  then show ?case by simp
next
  case (Cons e evs)
  then show ?case by (cases e) simp_all
qed

text \<open>A run that fails at the registration id, or before: lookups, then one log call.\<close>

lemma store_regID_failure_shape:
  assumes l: "Contains line ''orphaning certificate'' \<or> Contains line ''orphaning precertificate''"
    and m: "Contains line ''cert=''"
    and rf: "length (regOrphan_FindStringSubmatch line) \<le> 1
             \<or> (\<exists>err. ParseInt (regOrphan_FindStringSubmatch line ! 1) = Inl err)"
  shows "\<exists>t w' evs lv f a.
           storeParsedLogLine sa bd line w = ((True, False, t), w')
           \<and> trace w' = trace w @ evs @ [Log lv f a]
           \<and> length evs \<le> 1 \<and> list_all is_lookup evs"
proof (cases "length (derOrphan_FindStringSubmatch line) \<le> 1")
  case True
  show ?thesis
    by (simp add: store_regex_fail [OF l m True] trace_log)
next
  case long: False
  show ?thesis
  proof (cases "DecodeString (derOrphan_FindStringSubmatch line ! 1)")
    case (Inl err)
    show ?thesis
      by (simp add: store_hex_fail [OF l m long Inl] trace_log)
  next
    case dec: (Inr der)
    obtain t r w1 where chk: "checkDER sa der w = ((t, r), w1)"
      by (metis surj_pair)
    from checkDER_shape(1) [OF chk] obtain evs1 where
      tr1: "trace w1 = trace w @ evs1" and n1: "length evs1 \<le> 1"
      and lk: "list_all is_lookup evs1" by auto
    show ?thesis
    proof (cases r)
      case (Inl err)
      have "storeParsedLogLine sa bd line w =
         ((True, False, t),
          (if err = errAlreadyExists then Infof else Errf)
             ''%s, [%s]'' [ArgErr err, ArgStr line] w1)"
        by (rule store_checkDER_fail [OF l m long dec chk [unfolded Inl]])
      then show ?thesis using tr1 n1 lk
        by (cases "err = errAlreadyExists") (auto simp: trace_log)
    next
      case cert: (Inr cert)
      note chk' = chk [unfolded cert]
      show ?thesis
      proof (cases "length (regOrphan_FindStringSubmatch line) \<le> 1")
        case True
        show ?thesis using tr1 n1 lk
          by (auto simp: store_regID_missing [OF l m long dec chk' True] trace_log)
      next
        case rlong: False
        then obtain err where "ParseInt (regOrphan_FindStringSubmatch line ! 1) = Inl err"
          using rf by auto
        from store_regID_malformed [OF l m long dec chk' rlong this]
        show ?thesis using tr1 n1 lk
          by (auto simp: trace_log)
      qed
    qed
  qed
qed

text \<open>
  C2, as the code has it. A line with a label and the marker whose registration id is not
  matched by its pattern, or does not parse: the run is found = true, added = false; it
  makes no OCSP request and no insert; it makes at most one remote call, the existence
  lookup; it makes exactly one log call, and once \<^verbatim>\<open>checkDER\<close> has returned the
  certificate that call is at the audit-error level.
\<close>

theorem regID_failure_abandons:
  assumes "Contains line ''orphaning certificate'' \<or> Contains line ''orphaning precertificate''"
    and "Contains line ''cert=''"
    and "length (regOrphan_FindStringSubmatch line) \<le> 1
         \<or> (\<exists>err. ParseInt (regOrphan_FindStringSubmatch line ! 1) = Inl err)"
  shows "fst (fst (storeParsedLogLine sa bd line w))
     \<and> \<not> fst (snd (fst (storeParsedLogLine sa bd line w)))
     \<and> filter is_ocsp (new_events w (snd (storeParsedLogLine sa bd line w))) = []
     \<and> filter is_insert (new_events w (snd (storeParsedLogLine sa bd line w))) = []
     \<and> length (filter is_lookup (new_events w (snd (storeParsedLogLine sa bd line w)))) \<le> 1
     \<and> length (filter is_log (new_events w (snd (storeParsedLogLine sa bd line w)))) = 1
     \<and> (\<not> length (derOrphan_FindStringSubmatch line) \<le> 1
         \<and> DecodeString (derOrphan_FindStringSubmatch line ! 1) = Inr der
         \<and> checkDER sa der w = ((t, Inr cert), w1)
        \<longrightarrow> (\<exists>f a. storeParsedLogLine sa bd line w = ((True, False, t), AuditErrf f a w1)))"
proof -
  from store_regID_failure_shape [OF assms, of sa bd w] obtain t' w' evs lv f a where
    run: "storeParsedLogLine sa bd line w = ((True, False, t'), w')"
    and tr: "trace w' = trace w @ evs @ [Log lv f a]"
    and n: "length evs \<le> 1" and lk: "list_all is_lookup evs"
    by blast
  have ne: "new_events w w' = evs @ [Log lv f a]"
    by (simp add: tr new_events_def)
  have audit: "\<exists>f a. storeParsedLogLine sa bd line w = ((True, False, t), AuditErrf f a w1)"
    if long: "\<not> length (derOrphan_FindStringSubmatch line) \<le> 1"
      and dec: "DecodeString (derOrphan_FindStringSubmatch line ! 1) = Inr der"
      and chk: "checkDER sa der w = ((t, Inr cert), w1)"
  proof (cases "length (regOrphan_FindStringSubmatch line) \<le> 1")
    case True
    from store_regID_missing [OF assms(1,2) long dec chk True] show ?thesis by blast
  next
    case rlong: False
    then obtain err where "ParseInt (regOrphan_FindStringSubmatch line ! 1) = Inl err"
      using assms(3) by auto
    from store_regID_malformed [OF assms(1,2) long dec chk rlong this] show ?thesis by blast
  qed
  show ?thesis
    using lookups_only [OF lk] n audit by (simp add: ne run)
qed

theorem regID_failure_abandons_witness:
  "fst (fst (storeParsedLogLine memory_services one_hour
        ''orphaning certificate cert=[ab]'' empty_world))
   \<and> \<not> fst (snd (fst (storeParsedLogLine memory_services one_hour
        ''orphaning certificate cert=[ab]'' empty_world)))
   \<and> filter is_ocsp (new_events empty_world (snd (storeParsedLogLine memory_services one_hour
        ''orphaning certificate cert=[ab]'' empty_world))) = []
   \<and> filter is_insert (new_events empty_world (snd (storeParsedLogLine memory_services one_hour
        ''orphaning certificate cert=[ab]'' empty_world))) = []
   \<and> length (filter is_log (new_events empty_world (snd (storeParsedLogLine memory_services
        one_hour ''orphaning certificate cert=[ab]'' empty_world)))) = 1"
proof -
  let ?line = "''orphaning certificate cert=[ab]''"
  have 1: "Contains ?line ''orphaning certificate'' \<or> Contains ?line ''orphaning precertificate''"
    by code_simp
  have 2: "Contains ?line ''cert=''" by code_simp
  have 3: "length (regOrphan_FindStringSubmatch ?line) \<le> 1
         \<or> (\<exists>err. ParseInt (regOrphan_FindStringSubmatch ?line ! 1) = Inl err)"
    by (rule disjI1) code_simp
  from regID_failure_abandons [OF 1 2 3, of memory_services one_hour empty_world]
  show ?thesis by simp
qed

text \<open>
  C2 as stated fails: a line with the label and the marker and no registration id, whose
  DER is a certificate that is not stored, is abandoned after the existence lookup has
  been made; and when the certificate is stored already, the only diagnostic of the line
  is informational.
\<close>

theorem regID_failure_counterexample:
  "Contains ''orphaning certificate cert=[ab]'' ''orphaning certificate''
   \<and> Contains ''orphaning certificate cert=[ab]'' ''cert=''
   \<and> regOrphan_FindStringSubmatch ''orphaning certificate cert=[ab]'' = []
   \<and> storeParsedLogLine memory_services one_hour
        ''orphaning certificate cert=[ab]'' empty_world =
       ((True, False, certOrphan),
        \<lparr>remote = ([], []),
         trace =
           [CallGetCertificate ''01'',
            Log AuditErr ''regID variable is empty, [%s]''
              [ArgStr ''orphaning certificate cert=[ab]'']]\<rparr>)
   \<and> filter is_lookup (trace (snd (storeParsedLogLine memory_services one_hour
        ''orphaning certificate cert=[ab]'' empty_world))) = [CallGetCertificate ''01'']
   \<and> trace (snd (storeParsedLogLine memory_services one_hour
        ''orphaning certificate cert=[ab]'' stored_world)) =
       [CallGetCertificate ''01'',
        Log Info ''%s, [%s]''
          [ArgErr errAlreadyExists, ArgStr ''orphaning certificate cert=[ab]'']]"
  by code_simp

section \<open>The counters of the log mode\<close>

lemma line_step_counters:
  "certOrphansFound (fst (line_step sa bd line (c, w))) =
     certOrphansFound c +
       (if line \<noteq> [] \<and> fst (fst (storeParsedLogLine sa bd line w))
           \<and> snd (snd (fst (storeParsedLogLine sa bd line w))) = certOrphan then 1 else 0)
   \<and> certOrphansAdded (fst (line_step sa bd line (c, w))) =
     certOrphansAdded c +
       (if line \<noteq> [] \<and> fst (fst (storeParsedLogLine sa bd line w))
           \<and> fst (snd (fst (storeParsedLogLine sa bd line w)))
           \<and> snd (snd (fst (storeParsedLogLine sa bd line w))) = certOrphan then 1 else 0)
   \<and> precertOrphansFound (fst (line_step sa bd line (c, w))) =
     precertOrphansFound c +
       (if line \<noteq> [] \<and> fst (fst (storeParsedLogLine sa bd line w))
           \<and> snd (snd (fst (storeParsedLogLine sa bd line w))) = precertOrphan then 1 else 0)
   \<and> precertOrphansAdded (fst (line_step sa bd line (c, w))) =
     precertOrphansAdded c +
       (if line \<noteq> [] \<and> fst (fst (storeParsedLogLine sa bd line w))
           \<and> fst (snd (fst (storeParsedLogLine sa bd line w)))
           \<and> snd (snd (fst (storeParsedLogLine sa bd line w))) = precertOrphan then 1 else 0)"
proof -
  obtain found added t w1 where r: "storeParsedLogLine sa bd line w = ((found, added, t), w1)"
    by (metis surj_pair)
  show ?thesis
    by (cases t) (simp_all add: line_step_def r)
qed

lemma line_step_unknown:
  "snd (snd (fst (storeParsedLogLine sa bd line w))) = unknownOrphan \<Longrightarrow>
   fst (line_step sa bd line (c, w)) = c"
proof -
  assume u: "snd (snd (fst (storeParsedLogLine sa bd line w))) = unknownOrphan"
  obtain found added t w1 where r: "storeParsedLogLine sa bd line w = ((found, added, t), w1)"
    by (metis surj_pair)
  with u have "t = unknownOrphan" by simp
  then show ?thesis by (simp add: line_step_def r)
qed

lemma line_step_invariant:
  "added_le_found (fst st) \<Longrightarrow> added_le_found (fst (line_step sa bd line st))"
proof -
  assume inv: "added_le_found (fst st)"
  obtain c w where st: "st = (c, w)" by (cases st)
  from line_step_counters [of sa bd line c w] inv show ?thesis
    unfolding st added_le_found_def by (auto split: if_splits)
qed

lemma lines_loop_invariant:
  "added_le_found (fst st) \<Longrightarrow> added_le_found (fst (lines_loop sa bd ls st))"
  by (induction ls arbitrary: st) (simp_all add: line_step_invariant)

lemma parse_ca_log_invariant: "added_le_found (fst (parse_ca_log sa bd logData w))"
proof -
  have "added_le_found (fst (no_orphans, w))"
    by (simp add: added_le_found_def no_orphans_def)
  from lines_loop_invariant [OF this, of sa bd "Split logData"] show ?thesis
    by (auto simp: parse_ca_log_def split: prod.splits)
qed

text \<open>No counter exceeds the number of lines: the int64 counters of the source do not wrap.\<close>

lemma line_step_bound:
  "certOrphansFound (fst (line_step sa bd line st)) \<le> certOrphansFound (fst st) + 1
   \<and> precertOrphansFound (fst (line_step sa bd line st)) \<le> precertOrphansFound (fst st) + 1"
proof -
  obtain c w where st: "st = (c, w)" by (cases st)
  from line_step_counters [of sa bd line c w] show ?thesis
    unfolding st by (auto split: if_splits)
qed

lemma lines_loop_bound:
  "certOrphansFound (fst (lines_loop sa bd ls st)) \<le> certOrphansFound (fst st) + int (length ls)
   \<and> precertOrphansFound (fst (lines_loop sa bd ls st))
       \<le> precertOrphansFound (fst st) + int (length ls)"
proof (induction ls arbitrary: st)
  case Nil
  then show ?case by simp
next
  case (Cons line ls)
  from Cons.IH [of "line_step sa bd line st"] line_step_bound [of sa bd line st]
  show ?case by simp
qed

text \<open>
  C9. A matched line whose hex payload is not extracted, does not decode, or does not
  parse as a certificate is returned as (true, false, unknown), and a line of unknown
  type leaves the four counters as they were. A line adds one to the found counter of a
  type exactly when it is not empty, is found and has that type, and one to the added
  counter of the type exactly when it is also added; so after any log each added counter
  is at most the found counter of its type.
\<close>

theorem counters_only_for_typed_matches:
  "((Contains line ''orphaning certificate'' \<or> Contains line ''orphaning precertificate'')
      \<and> Contains line ''cert=''
      \<and> (length (derOrphan_FindStringSubmatch line) \<le> 1
          \<or> (\<exists>e. DecodeString (derOrphan_FindStringSubmatch line ! 1) = Inl e)
          \<or> (\<exists>der e. DecodeString (derOrphan_FindStringSubmatch line ! 1) = Inr der
                \<and> x509_ParseCertificate sa der = Inl e))
     \<longrightarrow> fst (storeParsedLogLine sa bd line w) = (True, False, unknownOrphan)
         \<and> fst (line_step sa bd line (c, w)) = c)
   \<and> (snd (snd (fst (storeParsedLogLine sa bd line w))) = unknownOrphan
        \<longrightarrow> fst (line_step sa bd line (c, w)) = c)
   \<and> certOrphansFound (fst (line_step sa bd line (c, w))) =
       certOrphansFound c +
         (if line \<noteq> [] \<and> fst (fst (storeParsedLogLine sa bd line w))
             \<and> snd (snd (fst (storeParsedLogLine sa bd line w))) = certOrphan then 1 else 0)
   \<and> certOrphansAdded (fst (line_step sa bd line (c, w))) =
       certOrphansAdded c +
         (if line \<noteq> [] \<and> fst (fst (storeParsedLogLine sa bd line w))
             \<and> fst (snd (fst (storeParsedLogLine sa bd line w)))
             \<and> snd (snd (fst (storeParsedLogLine sa bd line w))) = certOrphan then 1 else 0)
   \<and> precertOrphansFound (fst (line_step sa bd line (c, w))) =
       precertOrphansFound c +
         (if line \<noteq> [] \<and> fst (fst (storeParsedLogLine sa bd line w))
             \<and> snd (snd (fst (storeParsedLogLine sa bd line w))) = precertOrphan then 1 else 0)
   \<and> precertOrphansAdded (fst (line_step sa bd line (c, w))) =
       precertOrphansAdded c +
         (if line \<noteq> [] \<and> fst (fst (storeParsedLogLine sa bd line w))
             \<and> fst (snd (fst (storeParsedLogLine sa bd line w)))
             \<and> snd (snd (fst (storeParsedLogLine sa bd line w))) = precertOrphan then 1 else 0)
   \<and> certOrphansAdded (fst (parse_ca_log sa bd logData w))
        \<le> certOrphansFound (fst (parse_ca_log sa bd logData w))
   \<and> precertOrphansAdded (fst (parse_ca_log sa bd logData w))
        \<le> precertOrphansFound (fst (parse_ca_log sa bd logData w))"
proof -
  let ?derStr = "derOrphan_FindStringSubmatch line"
  have unknown: "fst (storeParsedLogLine sa bd line w) = (True, False, unknownOrphan)"
    if l: "Contains line ''orphaning certificate'' \<or> Contains line ''orphaning precertificate''"
      and m: "Contains line ''cert=''"
      and f: "length ?derStr \<le> 1
          \<or> (\<exists>e. DecodeString (?derStr ! 1) = Inl e)
          \<or> (\<exists>der e. DecodeString (?derStr ! 1) = Inr der \<and> x509_ParseCertificate sa der = Inl e)"
  proof (cases "length ?derStr \<le> 1")
    case True
    show ?thesis by (simp add: store_regex_fail [OF l m True])
  next
    case long: False
    with f consider e where "DecodeString (?derStr ! 1) = Inl e"
      | der e where "DecodeString (?derStr ! 1) = Inr der" "x509_ParseCertificate sa der = Inl e"
      by blast
    then show ?thesis
    proof cases
      case 1
      show ?thesis by (simp add: store_hex_fail [OF l m long 1])
    next
      case 2
      show ?thesis
        by (simp add: store_checkDER_fail [OF l m long 2(1) checkDER_parse_fail [OF 2(2)]])
    qed
  qed
  have first: "(Contains line ''orphaning certificate'' \<or> Contains line ''orphaning precertificate'')
      \<and> Contains line ''cert=''
      \<and> (length ?derStr \<le> 1
          \<or> (\<exists>e. DecodeString (?derStr ! 1) = Inl e)
          \<or> (\<exists>der e. DecodeString (?derStr ! 1) = Inr der \<and> x509_ParseCertificate sa der = Inl e))
     \<longrightarrow> fst (storeParsedLogLine sa bd line w) = (True, False, unknownOrphan)
         \<and> fst (line_step sa bd line (c, w)) = c"
  proof
    assume h: "(Contains line ''orphaning certificate'' \<or> Contains line ''orphaning precertificate'')
      \<and> Contains line ''cert=''
      \<and> (length ?derStr \<le> 1
          \<or> (\<exists>e. DecodeString (?derStr ! 1) = Inl e)
          \<or> (\<exists>der e. DecodeString (?derStr ! 1) = Inr der \<and> x509_ParseCertificate sa der = Inl e))"
    then have u: "fst (storeParsedLogLine sa bd line w) = (True, False, unknownOrphan)"
      using unknown by blast
    then have "snd (snd (fst (storeParsedLogLine sa bd line w))) = unknownOrphan" by simp
    from line_step_unknown [OF this] u
    show "fst (storeParsedLogLine sa bd line w) = (True, False, unknownOrphan)
         \<and> fst (line_step sa bd line (c, w)) = c" by simp
  qed
  have inv: "added_le_found (fst (parse_ca_log sa bd logData w))"
    by (rule parse_ca_log_invariant)
  show ?thesis
    using first line_step_unknown [of sa bd line w c] line_step_counters [of sa bd line c w]
      inv [unfolded added_le_found_def]
    by blast
qed

theorem counters_only_for_typed_matches_witness:
  "fst (storeParsedLogLine memory_services one_hour
          ''orphaning certificate cert=[zz] regID=[17]'' empty_world)
     = (True, False, unknownOrphan)
   \<and> fst (line_step memory_services one_hour
          ''orphaning certificate cert=[zz] regID=[17]'' (no_orphans, empty_world)) = no_orphans
   \<and> fst (parse_ca_log memory_services one_hour
          (''orphaning certificate cert=[ab] regID=[17]'' @ [CHR 0x0A] @
           ''orphaning certificate cert=[ab] regID=[17]'' @ [CHR 0x0A] @
           ''orphaning certificate cert=[zz] regID=[17]'' @ [CHR 0x0A] @
           ''orphaning precertificate cert=[cd] regID=[18]'' @ [CHR 0x0A])
          empty_world) =
       \<lparr>certOrphansFound = 2, certOrphansAdded = 1,
        precertOrphansFound = 1, precertOrphansAdded = 1\<rparr>"
proof -
  let ?line = "''orphaning certificate cert=[zz] regID=[17]''"
  have h: "(Contains ?line ''orphaning certificate'' \<or> Contains ?line ''orphaning precertificate'')
      \<and> Contains ?line ''cert=''
      \<and> (length (derOrphan_FindStringSubmatch ?line) \<le> 1
          \<or> (\<exists>e. DecodeString (derOrphan_FindStringSubmatch ?line ! 1) = Inl e)
          \<or> (\<exists>der e. DecodeString (derOrphan_FindStringSubmatch ?line ! 1) = Inr der
                \<and> x509_ParseCertificate memory_services der = Inl e))"
  proof -
    have "Contains ?line ''orphaning certificate''" by code_simp
    moreover have "Contains ?line ''cert=''" by code_simp
    moreover have "length (derOrphan_FindStringSubmatch ?line) \<le> 1" by code_simp
    ultimately show ?thesis by blast
  qed
  have batch: "fst (parse_ca_log memory_services one_hour
          (''orphaning certificate cert=[ab] regID=[17]'' @ [CHR 0x0A] @
           ''orphaning certificate cert=[ab] regID=[17]'' @ [CHR 0x0A] @
           ''orphaning certificate cert=[zz] regID=[17]'' @ [CHR 0x0A] @
           ''orphaning precertificate cert=[cd] regID=[18]'' @ [CHR 0x0A])
          empty_world) =
       \<lparr>certOrphansFound = 2, certOrphansAdded = 1,
        precertOrphansFound = 1, precertOrphansAdded = 1\<rparr>"
    by code_simp
  from counters_only_for_typed_matches
         [of ?line memory_services one_hour empty_world no_orphans "[]"] h batch
  show ?thesis by blast
qed

section \<open>The hex payload\<close>

lemma lower_hex_not_bracket: "is_lower_hex c \<Longrightarrow> c \<noteq> CHR '']''"
  by (auto simp: is_lower_hex_def)

lemma match_here_cert:
  "match_here ''cert=['' cls s =
     (let g = takeWhile cls (drop 6 s); r = dropWhile cls (drop 6 s)
      in if take 6 s = ''cert=['' \<and> g \<noteq> [] \<and> take 1 r = '']''
         then [''cert=['' @ g @ '']'', g] else [])"
proof -
  have len: "length ''cert=['' = 6" by simp
  show ?thesis by (simp only: match_here_def len)
qed

lemma match_here_bad_payload:
  assumes "list_ex (\<lambda>c. \<not> is_lower_hex c) (takeWhile (\<lambda>x. x \<noteq> CHR '']'') (drop 6 s))"
  shows "match_here ''cert=['' is_lower_hex s = []"
proof (rule ccontr)
  let ?rest = "drop 6 s"
  let ?g = "takeWhile is_lower_hex ?rest"
  assume "match_here ''cert=['' is_lower_hex s \<noteq> []"
  then have "take 1 (dropWhile is_lower_hex ?rest) = '']''"
    unfolding match_here_cert Let_def by (metis (full_types))
  then obtain r' where r: "dropWhile is_lower_hex ?rest = CHR '']'' # r'"
    by (cases "dropWhile is_lower_hex ?rest") auto
  have "?rest = ?g @ CHR '']'' # r'"
    using takeWhile_dropWhile_id [of is_lower_hex ?rest] r by simp
  then have "takeWhile (\<lambda>x. x \<noteq> CHR '']'') ?rest =
      takeWhile (\<lambda>x. x \<noteq> CHR '']'') (?g @ CHR '']'' # r')"
    by simp
  also have "\<dots> = takeWhile (\<lambda>x. x \<noteq> CHR '']'') ?g"
    by (rule takeWhile_tail) simp
  also have "\<dots> = ?g"
  proof -
    have "\<forall>x \<in> set ?g. x \<noteq> CHR '']''"
      using lower_hex_not_bracket by (auto dest: set_takeWhileD)
    then show ?thesis by (simp only: takeWhile_eq_all_conv)
  qed
  finally have "takeWhile (\<lambda>x. x \<noteq> CHR '']'') ?rest = ?g" .
  with assms have "list_ex (\<lambda>c. \<not> is_lower_hex c) ?g" by simp
  then show False
    by (auto simp: list_ex_iff dest: set_takeWhileD)
qed

lemma match_here_no_literal:
  "take 6 s \<noteq> ''cert=['' \<Longrightarrow> match_here ''cert=['' is_lower_hex s = []"
  unfolding match_here_cert Let_def by (simp only: simp_thms if_False)

lemma find_leftmost_bad_payloads:
  "list_all (list_ex (\<lambda>c. \<not> is_lower_hex c)) (payloads line) \<Longrightarrow>
   find_leftmost ''cert=['' is_lower_hex line = []"
proof (induction line)
  case Nil
  then show ?case by simp
next
  case (Cons c s)
  show ?case
  proof (cases "take 6 (c # s) = ''cert=[''")
    case True
    from Cons.prems have
      "list_all (list_ex (\<lambda>c. \<not> is_lower_hex c))
         (takeWhile (\<lambda>x. x \<noteq> CHR '']'') (drop 6 (c # s)) # payloads s)"
      by (simp only: payloads.simps True if_True simp_thms)
    then have bad:
      "list_ex (\<lambda>c. \<not> is_lower_hex c) (takeWhile (\<lambda>x. x \<noteq> CHR '']'') (drop 6 (c # s)))"
      and rest: "list_all (list_ex (\<lambda>c. \<not> is_lower_hex c)) (payloads s)"
      by simp_all
    from match_here_bad_payload [OF bad] Cons.IH [OF rest] show ?thesis
      by (simp only: find_leftmost.simps if_True simp_thms)
  next
    case False
    from Cons.prems have rest: "list_all (list_ex (\<lambda>c. \<not> is_lower_hex c)) (payloads s)"
      by (simp only: payloads.simps False if_False simp_thms)
    from match_here_no_literal [OF False] Cons.IH [OF rest] show ?thesis
      by (simp only: find_leftmost.simps if_True simp_thms)
  qed
qed

text \<open>
  C10. The pattern for the payload takes the characters 0-9 and a-f only. A line with a
  label and the marker in which every payload (the text after a \<^verbatim>\<open>cert=[\<close> up to the
  next closing bracket) has a character outside 0-9a-f, an uppercase hex digit for one, is
  matched but invalid: found = true, added = false, unknown type, one audit-error log call
  that the pattern did not match, and nothing else: no decoding, no remote call.
\<close>

theorem non_lowercase_hex_payload_is_invalid:
  assumes "Contains line ''orphaning certificate'' \<or> Contains line ''orphaning precertificate''"
    and "Contains line ''cert=''"
    and "\<forall>p \<in> set (payloads line). \<exists>c \<in> set p. c \<notin> set ''0123456789abcdef''"
  shows "storeParsedLogLine sa bd line w =
     ((True, False, unknownOrphan),
      w\<lparr>trace := trace w @ [Log AuditErr ''Didn't match regex for cert: %s'' [ArgStr line]]\<rparr>)"
proof -
  from assms(3) have "list_all (list_ex (\<lambda>c. \<not> is_lower_hex c)) (payloads line)"
    by (simp add: list_all_iff list_ex_iff is_lower_hex_def)
  then have "derOrphan_FindStringSubmatch line = []"
    unfolding derOrphan_FindStringSubmatch_def by (rule find_leftmost_bad_payloads)
  then have "length (derOrphan_FindStringSubmatch line) \<le> 1" by simp
  from store_regex_fail [OF assms(1,2) this] show ?thesis
    by (simp add: AuditErrf_def logf_def)
qed

theorem non_lowercase_hex_payload_is_invalid_witness:
  "payloads ''orphaning certificate cert=[3082AB] regID=[17]'' = [''3082AB'']
   \<and> storeParsedLogLine memory_services one_hour
        ''orphaning certificate cert=[3082AB] regID=[17]'' empty_world =
       ((True, False, unknownOrphan),
        \<lparr>remote = ([], []),
         trace = [Log AuditErr ''Didn't match regex for cert: %s''
                    [ArgStr ''orphaning certificate cert=[3082AB] regID=[17]'']]\<rparr>)"
proof -
  let ?line = "''orphaning certificate cert=[3082AB] regID=[17]''"
  have 1: "Contains ?line ''orphaning certificate'' \<or> Contains ?line ''orphaning precertificate''"
    by code_simp
  have 2: "Contains ?line ''cert=''" by code_simp
  have p: "payloads ?line = [''3082AB'']" by code_simp
  have 3: "\<forall>p \<in> set (payloads ?line). \<exists>c \<in> set p. c \<notin> set ''0123456789abcdef''"
    unfolding p by simp
  from non_lowercase_hex_payload_is_invalid [OF 1 2 3, of memory_services one_hour empty_world] p
  show ?thesis by (simp add: empty_world_def)
qed

end
